theory Spec2Isabelle
  imports Main "HOL-Library.AList"
begin

section \<open>Python values, exceptions and strings\<close>

text \<open>
  A Python \<open>str\<close> is modelled as a \<open>string\<close> whose characters are the code points
  0 to 255. The Unicode-aware string methods the program calls (\<open>strip\<close>,
  \<open>isdigit\<close>, \<open>lower\<close>, the regex class \<open>\d\<close>) are given by their tables on that
  range. The euro sign (U+20AC) of the currency pattern lies outside the range, so no
  string of the model contains it.

  An exception is a value of \<open>py_error\<close>; each constructor stands for the Python class of
  that name together with its subclasses, and carries the message \<open>str(e)\<close>.
  \<open>OtherError\<close> is any exception class that none of the handlers in \<open>data.py\<close> names
  other than through \<open>except Exception\<close>.
\<close>

datatype py_error =
    ValueError string
  | TypeError string
  | DataError string
  | OtherError string

fun str_of_error :: "py_error \<Rightarrow> string" where
  "str_of_error (ValueError m) = m"
| "str_of_error (TypeError m) = m"
| "str_of_error (DataError m) = m"
| "str_of_error (OtherError m) = m"

fun is_ValueError :: "py_error \<Rightarrow> bool" where
  "is_ValueError (ValueError m) = True"
| "is_ValueError e = False"

fun is_ValueError_or_TypeError :: "py_error \<Rightarrow> bool" where
  "is_ValueError_or_TypeError (ValueError m) = True"
| "is_ValueError_or_TypeError (TypeError m) = True"
| "is_ValueError_or_TypeError e = False"

fun is_DataError :: "py_error \<Rightarrow> bool" where
  "is_DataError (DataError m) = True"
| "is_DataError e = False"

datatype datetime = DateTime int int int int int int

datatype 'f pyval =
    VNone
  | VStr string
  | VInt int
  | VFloat 'f
  | VBool bool
  | VDate int int int
  | VDateTime datetime

fun date_of :: "datetime \<Rightarrow> 'f pyval" where
  "date_of (DateTime y m d hh mm ss) = VDate y m d"

text \<open>
  The objects of the spreadsheet library: a cell has a value and a number format; a
  worksheet has a title and the table of the cells that exist, in creation order; a
  workbook has its sheets in order and the index of the active one.
\<close>

record 'f cell =
  cvalue :: "'f pyval"
  number_format :: string

record 'f worksheet =
  title :: string
  cells :: "((int \<times> int) \<times> 'f cell) list"

record 'f workbook =
  sheets :: "'f worksheet list"
  active_index :: nat

text \<open>
  What the program takes from the Python runtime and from the spreadsheet library and
  does not define itself: \<open>float(s)\<close> on a string, float division by 100,
  \<open>datetime.strptime\<close>, \<open>str(v)\<close> of a value that is not a string, and the
  interpreter's limit on the number of digits \<open>int(s)\<close> converts (0 switches the limit
  off); of the library, its test whether a number format is a date format, the
  number it appends to a new sheet's title that an existing title already has when
  case is ignored, and the workbook that \<open>load_workbook\<close> reads back from the file
  \<open>wb.save\<close> writes. The float type \<open>'f\<close> is left open.
\<close>

record 'f externals =
  py_float :: "string \<Rightarrow> py_error + 'f"
  div100 :: "'f \<Rightarrow> 'f"
  strptime :: "string \<Rightarrow> string \<Rightarrow> py_error + datetime"
  py_repr :: "'f pyval \<Rightarrow> string"
  int_max_str_digits :: nat
  is_date_format :: "string \<Rightarrow> bool"
  duplicate_count :: "string list \<Rightarrow> string \<Rightarrow> nat"
  stored_workbook :: "'f workbook \<Rightarrow> 'f workbook"

definition code :: "char \<Rightarrow> nat" where
  "code c = of_char c"

definition py_isspace :: "char \<Rightarrow> bool" where
  "py_isspace c =
     ((9 \<le> code c \<and> code c \<le> 13) \<or> (28 \<le> code c \<and> code c \<le> 32)
      \<or> code c = 133 \<or> code c = 160)"

definition strip :: "string \<Rightarrow> string" where
  "strip s = rev (dropWhile py_isspace (rev (dropWhile py_isspace s)))"

definition is_ascii_digit :: "char \<Rightarrow> bool" where
  "is_ascii_digit c = (48 \<le> code c \<and> code c \<le> 57)"

definition py_isdigit_char :: "char \<Rightarrow> bool" where
  "py_isdigit_char c =
     (is_ascii_digit c \<or> code c = 178 \<or> code c = 179 \<or> code c = 185)"

definition str_isdigit :: "string \<Rightarrow> bool" where
  "str_isdigit s = (s \<noteq> [] \<and> list_all py_isdigit_char s)"

definition lower_char :: "char \<Rightarrow> char" where
  "lower_char c =
     (if (65 \<le> code c \<and> code c \<le> 90)
         \<or> (192 \<le> code c \<and> code c \<le> 222 \<and> code c \<noteq> 215)
      then char_of (code c + 32) else c)"

definition py_lower :: "string \<Rightarrow> string" where
  "py_lower s = map lower_char s"

definition endswith_char :: "string \<Rightarrow> char \<Rightarrow> bool" where
  "endswith_char s c = (s \<noteq> [] \<and> last s = c)"

definition remove_char :: "char \<Rightarrow> string \<Rightarrow> string" where
  "remove_char c s = filter (\<lambda>x. x \<noteq> c) s"

fun is_prefix :: "string \<Rightarrow> string \<Rightarrow> bool" where
  "is_prefix [] s = True"
| "is_prefix (p # ps) [] = False"
| "is_prefix (p # ps) (c # cs) = (p = c \<and> is_prefix ps cs)"

fun str_contains :: "string \<Rightarrow> string \<Rightarrow> bool" where
  "str_contains [] sub = (sub = [])"
| "str_contains (c # cs) sub = (is_prefix sub (c # cs) \<or> str_contains cs sub)"

section \<open>The two regular expressions\<close>

text \<open>
  Both patterns are a sequence of character classes, each with a quantifier. A
  matcher for that fragment decides whether the whole string is in the language of
  the pattern; \<open>re_match\<close> adds what \<open>$\<close> does in Python: it also matches just before
  a newline that ends the string.
\<close>

datatype quant = One | Opt | Star | Plus

type_synonym pattern = "((char \<Rightarrow> bool) \<times> quant) list"

fun rx_full :: "pattern \<Rightarrow> string \<Rightarrow> bool" where
  "rx_full [] s = (s = [])"
| "rx_full ((p, One) # r) [] = False"
| "rx_full ((p, One) # r) (c # cs) = (p c \<and> rx_full r cs)"
| "rx_full ((p, Opt) # r) [] = rx_full r []"
| "rx_full ((p, Opt) # r) (c # cs) = ((p c \<and> rx_full r cs) \<or> rx_full r (c # cs))"
| "rx_full ((p, Star) # r) [] = rx_full r []"
| "rx_full ((p, Star) # r) (c # cs) =
     ((p c \<and> rx_full ((p, Star) # r) cs) \<or> rx_full r (c # cs))"
| "rx_full ((p, Plus) # r) [] = False"
| "rx_full ((p, Plus) # r) (c # cs) = (p c \<and> rx_full ((p, Star) # r) cs)"

definition re_match :: "pattern \<Rightarrow> string \<Rightarrow> bool" where
  "re_match r s = (rx_full r s \<or> (endswith_char s (CHR 0x0A) \<and> rx_full r (butlast s)))"

definition is_currency_symbol :: "char \<Rightarrow> bool" where
  "is_currency_symbol c = (c = CHR ''$'' \<or> code c = 163 \<or> code c = 165)"

definition is_digit_or_comma :: "char \<Rightarrow> bool" where
  "is_digit_or_comma c = (is_ascii_digit c \<or> c = CHR '','')"

definition currency_pattern :: pattern where
  "currency_pattern =
     [(is_currency_symbol, Opt), (is_digit_or_comma, Plus),
      ((\<lambda>c. c = CHR ''.''), Opt), (is_ascii_digit, Star)]"

definition number_pattern :: pattern where
  "number_pattern =
     [((\<lambda>c. c = CHR ''-''), Opt), (is_digit_or_comma, Plus),
      ((\<lambda>c. c = CHR ''.''), Opt), (is_ascii_digit, Star)]"

section \<open>The builtin int() on a string\<close>

text \<open>
  \<open>int(s)\<close> in base 10: surrounding whitespace is skipped, then an optional sign, then
  decimal digits in which single underscores may stand between two digits. Anything
  else, or more digits than the interpreter's limit allows, raises ValueError. The
  handler in the program discards the message, which is abbreviated here.
\<close>

definition int_isspace :: "char \<Rightarrow> bool" where
  "int_isspace c =
     ((9 \<le> code c \<and> code c \<le> 13) \<or> code c = 32 \<or> code c = 133 \<or> code c = 160)"

definition digit_val :: "char \<Rightarrow> int" where
  "digit_val c = int (code c) - 48"

fun dec_value :: "int \<Rightarrow> string \<Rightarrow> int" where
  "dec_value acc [] = acc"
| "dec_value acc (c # cs) = dec_value (10 * acc + digit_val c) cs"

fun digits_ok :: "string \<Rightarrow> bool" where
  "digits_ok [] = False"
| "digits_ok [c] = is_ascii_digit c"
| "digits_ok (c # d # cs) =
     (is_ascii_digit c \<and>
      (if d = CHR ''_'' then (case cs of [] \<Rightarrow> False | e # es \<Rightarrow> digits_ok cs)
       else digits_ok (d # cs)))"

definition invalid_literal :: py_error where
  "invalid_literal = ValueError ''invalid literal for int() with base 10''"

definition int_of_digits :: "nat \<Rightarrow> string \<Rightarrow> py_error + int" where
  "int_of_digits limit body =
     (if digits_ok body then
        (let ds = remove_char (CHR ''_'') body in
         if 0 < limit \<and> limit < length ds
         then Inl (ValueError ''Exceeds the limit for integer string conversion'')
         else Inr (dec_value 0 ds))
      else Inl invalid_literal)"

definition py_int :: "nat \<Rightarrow> string \<Rightarrow> py_error + int" where
  "py_int limit s =
     (let t = rev (dropWhile int_isspace (rev (dropWhile int_isspace s))) in
      case t of
        [] \<Rightarrow> Inl invalid_literal
      | c # cs \<Rightarrow>
          if c = CHR ''-'' then map_sum id uminus (int_of_digits limit cs)
          else if c = CHR ''+'' then int_of_digits limit cs
          else int_of_digits limit (c # cs))"

section \<open>Type inference\<close>

text \<open>
  The display formats \<open>_infer_and_convert_data_type\<close> hands out, as the Excel format
  strings of the source.
\<close>

definition fmt_percentage :: string where
  "fmt_percentage = ''0.00%''"

definition fmt_currency_cents :: string where
  "fmt_currency_cents = [CHR 0x22, CHR ''$'', CHR 0x22] @ ''#,##0.00''"

definition fmt_currency_integer :: string where
  "fmt_currency_integer = [CHR 0x22, CHR ''$'', CHR 0x22] @ ''#,##0''"

definition fmt_decimal :: string where
  "fmt_decimal = ''0.00''"

definition fmt_integer :: string where
  "fmt_integer = ''0''"

definition fmt_date :: string where
  "fmt_date = ''mm/dd/yyyy''"

definition fmt_datetime :: string where
  "fmt_datetime = ''mm/dd/yyyy h:mm''"

type_synonym 'f inferred = "'f pyval \<times> string option"

text \<open>\<open>str(value)\<close>: the string itself, or the runtime's rendering of another value.\<close>

definition py_str :: "'f externals \<Rightarrow> 'f pyval \<Rightarrow> string" where
  "py_str ext v = (case v of VStr s \<Rightarrow> s | _ \<Rightarrow> py_repr ext v)"

definition as_float :: "'f externals \<Rightarrow> string \<Rightarrow> string \<Rightarrow> py_error + 'f inferred" where
  "as_float ext s fmt =
     (case py_float ext s of Inl e \<Rightarrow> Inl e | Inr x \<Rightarrow> Inr (VFloat x, Some fmt))"

definition as_int :: "'f externals \<Rightarrow> string \<Rightarrow> string \<Rightarrow> py_error + 'f inferred" where
  "as_int ext s fmt =
     (case py_int (int_max_str_digits ext) s of
        Inl e \<Rightarrow> Inl e | Inr n \<Rightarrow> Inr (VInt n, Some fmt))"

text \<open>
  The statements of the first \<open>try\<close> after the percentage check: currency, plain number,
  direct conversion. Every path returns or raises.
\<close>

definition numeric_rest :: "'f externals \<Rightarrow> string \<Rightarrow> py_error + 'f inferred" where
  "numeric_rest ext str_value =
     (if re_match currency_pattern str_value then
        (let numeric_part =
               filter (\<lambda>c. \<not> is_currency_symbol c \<and> c \<noteq> CHR '','') str_value in
         if CHR ''.'' \<in> set numeric_part
         then as_float ext numeric_part fmt_currency_cents
         else as_int ext numeric_part fmt_currency_integer)
      else if re_match number_pattern str_value then
        (let numeric_part = remove_char (CHR '','') str_value in
         if CHR ''.'' \<in> set numeric_part
         then as_float ext numeric_part fmt_decimal
         else as_int ext numeric_part fmt_integer)
      else if CHR ''.'' \<in> set str_value \<or> CHR ''e'' \<in> set (py_lower str_value)
      then as_float ext str_value fmt_decimal
      else as_int ext str_value fmt_integer)"

text \<open>The body of the first \<open>try\<close>: the percentage check, then the rest.\<close>

definition numeric_block :: "'f externals \<Rightarrow> string \<Rightarrow> py_error + 'f inferred" where
  "numeric_block ext str_value =
     (if endswith_char str_value (CHR ''%'') then
        (let numeric_part = remove_char (CHR '','') (butlast str_value) in
         if str_isdigit (remove_char (CHR ''-'') (remove_char (CHR ''.'') numeric_part))
         then (case py_float ext numeric_part of
                 Inl e \<Rightarrow> Inl e
               | Inr x \<Rightarrow> Inr (VFloat (div100 ext x), Some fmt_percentage))
         else numeric_rest ext str_value)
      else numeric_rest ext str_value)"

definition date_formats :: "string list" where
  "date_formats =
     [''%Y-%m-%d'', ''%m/%d/%Y'', ''%d/%m/%Y'', ''%Y/%m/%d'',
      ''%Y-%m-%d %H:%M:%S'', ''%m/%d/%Y %H:%M:%S'', ''%d/%m/%Y %H:%M:%S'',
      ''%Y-%m-%d %H:%M'', ''%m/%d/%Y %H:%M'', ''%d/%m/%Y %H:%M'']"

text \<open>
  The loop over the date formats: the first format that parses returns; a ValueError
  moves on to the next format; any other exception leaves the loop. \<open>Inr None\<close> is
  the loop running to its end.
\<close>

fun date_loop :: "'f externals \<Rightarrow> string \<Rightarrow> string list \<Rightarrow> py_error + 'f inferred option" where
  "date_loop ext str_value [] = Inr None"
| "date_loop ext str_value (fmt # fmts) =
     (case strptime ext str_value fmt of
        Inr parsed_date \<Rightarrow>
          if str_contains fmt ''%H''
          then Inr (Some (VDateTime parsed_date, Some fmt_datetime))
          else Inr (Some (date_of parsed_date, Some fmt_date))
      | Inl e \<Rightarrow> if is_ValueError e then date_loop ext str_value fmts else Inl e)"

definition boolean_or_text :: "string \<Rightarrow> 'f inferred" where
  "boolean_or_text str_value =
     (if py_lower str_value \<in> set [''true'', ''false'', ''yes'', ''no'', ''1'', ''0''] then
        (if py_lower str_value \<in> set [''true'', ''yes'', ''1'']
         then (VBool True, None) else (VBool False, None))
      else (VStr str_value, None))"

text \<open>Everything after the first \<open>try\<close>: dates, booleans, text.\<close>

definition after_numeric :: "'f externals \<Rightarrow> string \<Rightarrow> py_error + 'f inferred" where
  "after_numeric ext str_value =
     (case date_loop ext str_value date_formats of
        Inr (Some r) \<Rightarrow> Inr r
      | Inr None \<Rightarrow> Inr (boolean_or_text str_value)
      | Inl e \<Rightarrow>
          if is_ValueError_or_TypeError e then Inr (boolean_or_text str_value) else Inl e)"

definition is_none_or_empty :: "'f pyval \<Rightarrow> bool" where
  "is_none_or_empty v = (case v of VNone \<Rightarrow> True | VStr s \<Rightarrow> s = [] | _ \<Rightarrow> False)"

definition infer_and_convert_data_type :: "'f externals \<Rightarrow> 'f pyval \<Rightarrow> py_error + 'f inferred" where
  "infer_and_convert_data_type ext v =
     (if is_none_or_empty v then Inr (VNone, None)
      else
        (let str_value = strip (py_str ext v) in
         if str_value = [] then Inr (VNone, None)
         else
           (case numeric_block ext str_value of
              Inr r \<Rightarrow> Inr r
            | Inl e \<Rightarrow>
                if is_ValueError_or_TypeError e then after_numeric ext str_value
                else Inl e)))"

section \<open>Path resolution\<close>

text \<open>
  \<open>get_excel_path\<close> of \<open>server.py\<close>. The module-level \<open>EXCEL_FILES_PATH\<close> is passed
  in; \<open>os.path.isabs\<close> and \<open>os.path.join\<close> depend on the platform and are
  parameters, with the POSIX versions given for evaluation.
\<close>

record os_path =
  isabs :: "string \<Rightarrow> bool"
  join :: "string \<Rightarrow> string \<Rightarrow> string"

definition get_excel_path :: "os_path \<Rightarrow> string option \<Rightarrow> string \<Rightarrow> py_error + string" where
  "get_excel_path os EXCEL_FILES_PATH filename =
     (if isabs os filename then Inr filename
      else case EXCEL_FILES_PATH of
             None \<Rightarrow>
               Inl (ValueError (''Invalid filename: '' @ filename
                      @ '', must be an absolute path when not in SSE mode''))
           | Some base \<Rightarrow> Inr (join os base filename))"

definition posix_path :: os_path where
  "posix_path =
     \<lparr> isabs = (\<lambda>p. is_prefix ''/'' p),
       join = (\<lambda>a b. if is_prefix ''/'' b then b
                      else if a = [] \<or> endswith_char a (CHR ''/'') then a @ b
                      else a @ ''/'' @ b) \<rparr>"

section \<open>Worksheets and workbooks\<close>

text \<open>
  The spreadsheet library is outside the repository; this is what its documented
  behaviour gives for the calls the program makes. A new cell has no value and the
  number format \<open>General\<close>. Asking a worksheet for a cell creates it when it is missing
  and fails for a row or column below 1. The four dimension properties are 1 on a
  sheet without cells and the extreme row and column of the existing cells otherwise.
  Merged cells, which the library makes read-only, are not modelled.
\<close>

definition default_cell :: "'f cell" where
  "default_cell = \<lparr> cvalue = VNone, number_format = ''General'' \<rparr>"

definition cell_at :: "'f worksheet \<Rightarrow> int \<Rightarrow> int \<Rightarrow> 'f cell" where
  "cell_at ws row col =
     (case map_of (cells ws) (row, col) of None \<Rightarrow> default_cell | Some x \<Rightarrow> x)"

definition is_none :: "'f pyval \<Rightarrow> bool" where
  "is_none v = (case v of VNone \<Rightarrow> True | _ \<Rightarrow> False)"

definition cell_error :: py_error where
  "cell_error = ValueError ''Row or column values must be at least 1''"

text \<open>\<open>ws.cell(row, column)\<close>: the worksheet with the cell in it, or the error.\<close>

definition ws_cell :: "'f worksheet \<Rightarrow> int \<Rightarrow> int \<Rightarrow> py_error + 'f worksheet" where
  "ws_cell ws row col =
     (if row < 1 \<or> col < 1 then Inl cell_error
      else Inr (ws\<lparr>cells := AList.update (row, col) (cell_at ws row col) (cells ws)\<rparr>))"

text \<open>
  Assigning to \<open>cell.value\<close> runs the library's value binding. A string is cut to
  its first 32767 characters and then refused, with the library's
  IllegalCharacterError, when it holds a control character other than tab, line feed
  and carriage return. A date or a datetime puts the library's own date format on a
  cell whose number format is not a date format already. Every other value is stored
  and nothing else changes.
\<close>

definition is_illegal_char :: "char \<Rightarrow> bool" where
  "is_illegal_char c =
     (code c \<le> 8 \<or> code c = 11 \<or> code c = 12 \<or> (14 \<le> code c \<and> code c \<le> 31))"

definition check_string :: "string \<Rightarrow> py_error + string" where
  "check_string s =
     (let v = take 32767 s in
      if list_ex is_illegal_char v then Inl (OtherError (v @ '' cannot be used in worksheets.''))
      else Inr v)"

definition date_number_format :: "'f externals \<Rightarrow> string \<Rightarrow> string \<Rightarrow> string" where
  "date_number_format ext current library_format =
     (if is_date_format ext current then current else library_format)"

definition bind_value :: "'f externals \<Rightarrow> 'f cell \<Rightarrow> 'f pyval \<Rightarrow> py_error + 'f cell" where
  "bind_value ext cell v =
     (case v of
        VStr s \<Rightarrow>
          (case check_string s of
             Inl e \<Rightarrow> Inl e
           | Inr checked \<Rightarrow> Inr (cell\<lparr>cvalue := VStr checked\<rparr>))
      | VDate y m d \<Rightarrow>
          Inr (cell\<lparr>cvalue := v,
                     number_format :=
                       date_number_format ext (number_format cell) ''yyyy-mm-dd''\<rparr>)
      | VDateTime dt \<Rightarrow>
          Inr (cell\<lparr>cvalue := v,
                     number_format :=
                       date_number_format ext (number_format cell) ''yyyy-mm-dd h:mm:ss''\<rparr>)
      | _ \<Rightarrow> Inr (cell\<lparr>cvalue := v\<rparr>))"

definition set_value ::
  "'f externals \<Rightarrow> 'f worksheet \<Rightarrow> int \<Rightarrow> int \<Rightarrow> 'f pyval \<Rightarrow> py_error + 'f worksheet" where
  "set_value ext ws row col v =
     (case bind_value ext (cell_at ws row col) v of
        Inl e \<Rightarrow> Inl e
      | Inr bound \<Rightarrow> Inr (ws\<lparr>cells := AList.update (row, col) bound (cells ws)\<rparr>))"

definition set_number_format :: "'f worksheet \<Rightarrow> int \<Rightarrow> int \<Rightarrow> string \<Rightarrow> 'f worksheet" where
  "set_number_format ws row col fmt =
     ws\<lparr>cells :=
          AList.update (row, col) ((cell_at ws row col)\<lparr>number_format := fmt\<rparr>) (cells ws)\<rparr>"

definition cell_rows :: "'f worksheet \<Rightarrow> int list" where
  "cell_rows ws = map (\<lambda>kv. fst (fst kv)) (cells ws)"

definition cell_columns :: "'f worksheet \<Rightarrow> int list" where
  "cell_columns ws = map (\<lambda>kv. snd (fst kv)) (cells ws)"

definition min_row :: "'f worksheet \<Rightarrow> int" where
  "min_row ws = (if cells ws = [] then 1 else Min (set (cell_rows ws)))"

definition max_row :: "'f worksheet \<Rightarrow> int" where
  "max_row ws = (if cells ws = [] then 1 else Max (set (cell_rows ws)))"

definition min_column :: "'f worksheet \<Rightarrow> int" where
  "min_column ws = (if cells ws = [] then 1 else Min (set (cell_columns ws)))"

definition max_column :: "'f worksheet \<Rightarrow> int" where
  "max_column ws = (if cells ws = [] then 1 else Max (set (cell_columns ws)))"

text \<open>
  \<open>get_column_letter\<close> of the library: the column's letters in bijective base 26, a
  ValueError outside 1 to 18278. \<open>str_of_nat\<close> is \<open>str\<close> on a natural number.
\<close>

fun str_of_nat :: "nat \<Rightarrow> string" where
  "str_of_nat n =
     (if n < 10 then [char_of (48 + n)]
      else str_of_nat (n div 10) @ [char_of (48 + n mod 10)])"

definition str_of_int :: "int \<Rightarrow> string" where
  "str_of_int i = (if i < 0 then CHR ''-'' # str_of_nat (nat (- i)) else str_of_nat (nat i))"

fun column_letters :: "nat \<Rightarrow> string" where
  "column_letters n =
     (if n = 0 then []
      else if n mod 26 = 0 then column_letters (n div 26 - 1) @ [char_of (26 + 64 :: nat)]
      else column_letters (n div 26) @ [char_of (n mod 26 + 64)])"

declare str_of_nat.simps [simp del] column_letters.simps [simp del]

definition get_column_letter :: "int \<Rightarrow> py_error + string" where
  "get_column_letter col_idx =
     (if 1 \<le> col_idx \<and> col_idx \<le> 18278 then Inr (column_letters (nat col_idx))
      else Inl (ValueError (''Invalid column index '' @ str_of_int col_idx)))"

definition sheetnames :: "'f workbook \<Rightarrow> string list" where
  "sheetnames wb = map title (sheets wb)"

fun sheet_index :: "'f worksheet list \<Rightarrow> string \<Rightarrow> nat option" where
  "sheet_index [] name = None"
| "sheet_index (w # ws) name =
     (if title w = name then Some 0 else map_option Suc (sheet_index ws name))"

text \<open>
  \<open>wb.create_sheet(title)\<close> appends an empty sheet. The library refuses a title
  that holds one of the characters \<open>\ * ? : / [ ]\<close> with a ValueError, and to a title
  that an existing sheet has already, case ignored, it appends a number, so that
  the new sheet does not carry the title asked for. An empty title stands for the
  library's default, \<open>Sheet\<close>.
\<close>

definition is_invalid_title_char :: "char \<Rightarrow> bool" where
  "is_invalid_title_char c = (c \<in> set [CHR 0x5C, CHR ''*'', CHR ''?'', CHR '':'', CHR ''/'', CHR ''['', CHR '']''])"

definition title_taken :: "'f workbook \<Rightarrow> string \<Rightarrow> bool" where
  "title_taken wb name = list_ex (\<lambda>n. py_lower n = py_lower name) (sheetnames wb)"

definition new_title :: "'f externals \<Rightarrow> 'f workbook \<Rightarrow> string \<Rightarrow> string" where
  "new_title ext wb name =
     (if title_taken wb name
      then name @ str_of_nat (duplicate_count ext (sheetnames wb) name) else name)"

definition create_sheet :: "'f externals \<Rightarrow> 'f workbook \<Rightarrow> string \<Rightarrow> py_error + 'f workbook" where
  "create_sheet ext wb name =
     (let wanted = (if name = [] then ''Sheet'' else name) in
      case find is_invalid_title_char wanted of
        Some c \<Rightarrow> Inl (ValueError (''Invalid character '' @ [c] @ '' found in sheet title''))
      | None \<Rightarrow>
          Inr (wb\<lparr>sheets := sheets wb @ [\<lparr> title = new_title ext wb wanted, cells = [] \<rparr>]\<rparr>))"

text \<open>
  \<open>wb[name]\<close>: the first sheet of that title, or a KeyError, whose text is the
  quoted message.
\<close>

definition no_such_sheet :: "string \<Rightarrow> py_error" where
  "no_such_sheet name =
     OtherError ([CHR 0x27] @ ''Worksheet '' @ name @ '' does not exist.'' @ [CHR 0x27])"

text \<open>
  The files on disk, each as the workbook \<open>load_workbook\<close> returns for it:
  \<open>load_workbook\<close> reads one or fails, \<open>wb.save\<close> replaces one by what the library's
  file format keeps of the workbook.
\<close>

type_synonym 'f files = "string \<Rightarrow> 'f workbook option"

definition load_workbook :: "'f files \<Rightarrow> string \<Rightarrow> py_error + 'f workbook" where
  "load_workbook fs filepath =
     (case fs filepath of
        None \<Rightarrow> Inl (OtherError (''No such file or directory: '' @ filepath))
      | Some wb \<Rightarrow> Inr wb)"

definition save :: "'f externals \<Rightarrow> 'f files \<Rightarrow> string \<Rightarrow> 'f workbook \<Rightarrow> 'f files" where
  "save ext fs filepath wb = fs(filepath \<mapsto> stored_workbook ext wb)"

section \<open>Cell references\<close>

text \<open>
  \<open>parse_cell_range\<close> lives in \<open>cell_utils\<close>, which is not among the sources, so the
  functions of \<open>data.py\<close> take it as a parameter: it raises, or returns something
  falsy (\<open>None\<close> here), or returns a tuple whose first two components, each possibly
  \<open>None\<close>, are the row and the column.
\<close>

type_synonym parser = "string \<Rightarrow> py_error + (int option \<times> int option) option"

text \<open>
  The check every caller makes on the parser's answer, with the caller's wording:
  \<open>which\<close> is \<open>start\<close> or \<open>end\<close>, \<open>arg\<close> the text given to the parser and \<open>shown\<close> the
  text named in the message. A ValueError of the parser becomes a DataError; any other
  exception passes through.
\<close>

definition cell_coords :: "parser \<Rightarrow> string \<Rightarrow> string \<Rightarrow> string \<Rightarrow> py_error + int \<times> int" where
  "cell_coords parse_cell_range which arg shown =
     (case parse_cell_range arg of
        Inl e \<Rightarrow>
          if is_ValueError e
          then Inl (DataError (''Invalid '' @ which @ '' cell format: '' @ str_of_error e))
          else Inl e
      | Inr None \<Rightarrow> Inl (DataError (''Invalid '' @ which @ '' cell reference: '' @ shown))
      | Inr (Some (Some row, Some col)) \<Rightarrow> Inr (row, col)
      | Inr (Some (Some row, None)) \<Rightarrow>
          Inl (DataError (''Invalid '' @ which @ '' cell reference: '' @ shown))
      | Inr (Some (None, col)) \<Rightarrow>
          Inl (DataError (''Invalid '' @ which @ '' cell reference: '' @ shown)))"

text \<open>
  Modelled from the spec: \<open>parse_cell_range\<close> of \<open>cell_utils\<close> is missing from the
  sources. Sections 3 and 4.1 give it: a reference is column letters followed by row
  digits, alone or as \<open>start:end\<close>; letters are read case-insensitively in base 26
  without a zero digit (A = 1, Z = 26, AA = 27); the row is at least 1; anything else
  fails. The failure is a ValueError, the class the callers catch. It is used to run
  the functions of \<open>data.py\<close> on concrete references.
\<close>

definition is_ascii_letter :: "char \<Rightarrow> bool" where
  "is_ascii_letter c =
     ((65 \<le> code c \<and> code c \<le> 90) \<or> (97 \<le> code c \<and> code c \<le> 122))"

definition letter_val :: "char \<Rightarrow> int" where
  "letter_val c = (if 97 \<le> code c then int (code c) - 96 else int (code c) - 64)"

fun column_value :: "int \<Rightarrow> string \<Rightarrow> int" where
  "column_value acc [] = acc"
| "column_value acc (c # cs) = column_value (26 * acc + letter_val c) cs"

definition parse_cell_spec :: "string \<Rightarrow> (int \<times> int) option" where
  "parse_cell_spec s =
     (let letters = takeWhile is_ascii_letter s; digits = dropWhile is_ascii_letter s in
      if letters \<noteq> [] \<and> digits \<noteq> [] \<and> list_all is_ascii_digit digits
         \<and> 1 \<le> dec_value 0 digits
      then Some (dec_value 0 digits, column_value 0 letters) else None)"

fun split_on :: "char \<Rightarrow> string \<Rightarrow> string list" where
  "split_on sep [] = [[]]"
| "split_on sep (c # cs) =
     (if c = sep then [] # split_on sep cs
      else (case split_on sep cs of [] \<Rightarrow> [[c]] | p # ps \<Rightarrow> (c # p) # ps))"

definition parse_cell_range_spec :: parser where
  "parse_cell_range_spec s =
     (case split_on (CHR '':'') s of
        [a] \<Rightarrow>
          (case parse_cell_spec a of
             Some (row, col) \<Rightarrow> Inr (Some (Some row, Some col))
           | None \<Rightarrow> Inl (ValueError (''Invalid cell reference: '' @ s)))
      | [a, b] \<Rightarrow>
          (case (parse_cell_spec a, parse_cell_spec b) of
             (Some (row, col), Some e) \<Rightarrow> Inr (Some (Some row, Some col))
           | _ \<Rightarrow> Inl (ValueError (''Invalid cell reference: '' @ s)))
      | _ \<Rightarrow> Inl (ValueError (''Invalid cell reference: '' @ s)))"

section \<open>Writing\<close>

text \<open>
  What \<open>except DataError: raise\<close> followed by \<open>except Exception as e: raise
  DataError(str(e))\<close> makes of an exception.
\<close>

definition to_data_error :: "py_error \<Rightarrow> py_error" where
  "to_data_error e = (if is_DataError e then e else DataError (str_of_error e))"

definition no_data :: py_error where
  "no_data = DataError ''No data provided to write''"

text \<open>
  The inner loop of \<open>_write_data_to_worksheet\<close>: the values of row \<open>i\<close> from position
  \<open>j\<close> on. The worksheet is changed in place, so it is returned also when the loop
  raises.
\<close>

fun write_cells ::
  "'f externals \<Rightarrow> bool \<Rightarrow> int \<Rightarrow> int \<Rightarrow> int \<Rightarrow> int \<Rightarrow> 'f worksheet \<Rightarrow> 'f pyval list
     \<Rightarrow> 'f worksheet \<times> (py_error + unit)" where
  "write_cells ext auto_detect_types start_row start_col i j ws [] = (ws, Inr ())"
| "write_cells ext auto_detect_types start_row start_col i j ws (val # vals) =
     (case ws_cell ws (start_row + i) (start_col + j) of
        Inl e \<Rightarrow> (ws, Inl e)
      | Inr ws1 \<Rightarrow>
          if auto_detect_types then
            (case infer_and_convert_data_type ext val of
               Inl e \<Rightarrow> (ws1, Inl e)
             | Inr (converted_value, fmt_opt) \<Rightarrow>
                 (case set_value ext ws1 (start_row + i) (start_col + j) converted_value of
                    Inl e \<Rightarrow> (ws1, Inl e)
                  | Inr ws2 \<Rightarrow>
                      (let ws3 = (case fmt_opt of
                                    None \<Rightarrow> ws2
                                  | Some fmt \<Rightarrow>
                                      if fmt = [] then ws2
                                      else set_number_format ws2 (start_row + i)
                                             (start_col + j) fmt)
                       in write_cells ext auto_detect_types start_row start_col i (j + 1) ws3
                            vals)))
          else
            (case set_value ext ws1 (start_row + i) (start_col + j) val of
               Inl e \<Rightarrow> (ws1, Inl e)
             | Inr ws2 \<Rightarrow>
                 write_cells ext auto_detect_types start_row start_col i (j + 1) ws2 vals))"

text \<open>The outer loop: the rows from index \<open>i\<close> on.\<close>

fun write_rows ::
  "'f externals \<Rightarrow> bool \<Rightarrow> int \<Rightarrow> int \<Rightarrow> int \<Rightarrow> 'f worksheet \<Rightarrow> 'f pyval list list
     \<Rightarrow> 'f worksheet \<times> (py_error + unit)" where
  "write_rows ext auto_detect_types start_row start_col i ws [] = (ws, Inr ())"
| "write_rows ext auto_detect_types start_row start_col i ws (row # rows) =
     (case write_cells ext auto_detect_types start_row start_col i 0 ws row of
        (ws1, Inl e) \<Rightarrow> (ws1, Inl e)
      | (ws1, Inr u) \<Rightarrow> write_rows ext auto_detect_types start_row start_col (i + 1) ws1 rows)"

definition write_data_to_worksheet ::
  "parser \<Rightarrow> 'f externals \<Rightarrow> 'f worksheet \<Rightarrow> 'f pyval list list \<Rightarrow> string \<Rightarrow> bool
     \<Rightarrow> 'f worksheet \<times> (py_error + unit)" where
  "write_data_to_worksheet parse_cell_range ext worksheet data start_cell auto_detect_types =
     (if data = [] then (worksheet, Inl no_data)
      else
        (case cell_coords parse_cell_range ''start'' start_cell start_cell of
           Inl e \<Rightarrow> (worksheet, Inl (to_data_error e))
         | Inr (start_row, start_col) \<Rightarrow>
             (case write_rows ext auto_detect_types start_row start_col 0 worksheet data of
                (ws1, Inl e) \<Rightarrow> (ws1, Inl (to_data_error e))
              | (ws1, Inr u) \<Rightarrow> (ws1, Inr ()))))"

text \<open>
  \<open>write_data\<close>. The result is the dictionary's two entries, the message and the
  active sheet. Only \<open>wb.save\<close> changes the files, so they are returned unchanged
  when an exception leaves the function.
\<close>

definition active_title :: "'f workbook \<Rightarrow> py_error + string" where
  "active_title wb =
     (if active_index wb < length (sheets wb)
      then Inr (title (sheets wb ! active_index wb))
      else Inl (OtherError ''NoneType object has no attribute title''))"

definition target_sheet ::
  "'f externals \<Rightarrow> 'f workbook \<Rightarrow> string option \<Rightarrow> py_error + 'f workbook \<times> string" where
  "target_sheet ext wb sheet_name =
     (case sheet_name of
        None \<Rightarrow> map_sum id (\<lambda>t. (wb, t)) (active_title wb)
      | Some name \<Rightarrow>
          if name = [] then map_sum id (\<lambda>t. (wb, t)) (active_title wb)
          else if name \<notin> set (sheetnames wb)
          then map_sum id (\<lambda>wb1. (wb1, name)) (create_sheet ext wb name)
          else Inr (wb, name))"

definition write_data_body ::
  "parser \<Rightarrow> 'f externals \<Rightarrow> 'f files \<Rightarrow> string \<Rightarrow> string option \<Rightarrow> 'f pyval list list option
     \<Rightarrow> string \<Rightarrow> bool \<Rightarrow> 'f files \<times> (py_error + string \<times> string)" where
  "write_data_body parse_cell_range ext fs filepath sheet_name data start_cell auto_detect_types =
     (case data of
        None \<Rightarrow> (fs, Inl no_data)
      | Some rows \<Rightarrow>
          if rows = [] then (fs, Inl no_data)
          else
            (case load_workbook fs filepath of
               Inl e \<Rightarrow> (fs, Inl e)
             | Inr wb0 \<Rightarrow>
                 (case target_sheet ext wb0 sheet_name of
                    Inl e \<Rightarrow> (fs, Inl e)
                  | Inr (wb, name) \<Rightarrow>
                      (case sheet_index (sheets wb) name of
                         None \<Rightarrow> (fs, Inl (no_such_sheet name))
                       | Some k \<Rightarrow>
                           (case cell_coords parse_cell_range ''start'' start_cell start_cell of
                              Inl e \<Rightarrow> (fs, Inl e)
                            | Inr start_coords \<Rightarrow>
                                (case write_data_to_worksheet parse_cell_range ext (sheets wb ! k)
                                        rows start_cell auto_detect_types of
                                   (ws1, Inl e) \<Rightarrow> (fs, Inl e)
                                 | (ws1, Inr u) \<Rightarrow>
                                     (save ext fs filepath (wb\<lparr>sheets := (sheets wb)[k := ws1]\<rparr>),
                                      Inr (''Data written to '' @ name @ '' with type detection'',
                                           name))))))))"

definition write_data ::
  "parser \<Rightarrow> 'f externals \<Rightarrow> 'f files \<Rightarrow> string \<Rightarrow> string option \<Rightarrow> 'f pyval list list option
     \<Rightarrow> string \<Rightarrow> bool \<Rightarrow> 'f files \<times> (py_error + string \<times> string)" where
  "write_data parse_cell_range ext fs filepath sheet_name data start_cell auto_detect_types =
     (case write_data_body parse_cell_range ext fs filepath sheet_name data start_cell
             auto_detect_types of
        (fs1, Inl e) \<Rightarrow> (fs1, Inl (to_data_error e))
      | (fs1, Inr r) \<Rightarrow> (fs1, Inr r))"

section \<open>Reading\<close>

text \<open>
  Reading a cell: \<open>ws.cell(row, column).value\<close>. The empty cell the library creates
  when it is missing lives in the workbook object, which both read functions drop at
  return, and changes no value or dimension they look at afterwards, so it is not kept.
\<close>

definition cell_value :: "'f worksheet \<Rightarrow> int \<Rightarrow> int \<Rightarrow> py_error + 'f pyval" where
  "cell_value ws row col =
     (if row < 1 \<or> col < 1 then Inl cell_error else Inr (cvalue (cell_at ws row col)))"

text \<open>\<open>start_cell, end_cell = start_cell.split(":")\<close> when the start contains a colon.\<close>

definition split_start :: "string \<Rightarrow> string option \<Rightarrow> py_error + string \<times> string option" where
  "split_start start_cell end_cell =
     (if CHR '':'' \<in> set start_cell then
        (case split_on (CHR '':'') start_cell of
           [a, b] \<Rightarrow> Inr (a, Some b)
         | _ \<Rightarrow> Inl (ValueError ''too many values to unpack (expected 2)''))
      else Inr (start_cell, end_cell))"

text \<open>The test for an empty sheet both read functions make when no end cell is given.\<close>

definition sheet_is_blank :: "'f worksheet \<Rightarrow> bool" where
  "sheet_is_blank ws = (max_row ws = 1 \<and> max_column ws = 1 \<and> is_none (cvalue (cell_at ws 1 1)))"

definition pair_ref :: "string \<Rightarrow> string" where
  "pair_ref cell_text = cell_text @ '':'' @ cell_text"

text \<open>
  The rectangle \<open>read_excel_range\<close> settles on: start row, start column, end row, end
  column.
\<close>

definition resolve_range ::
  "parser \<Rightarrow> 'f worksheet \<Rightarrow> string \<Rightarrow> string option \<Rightarrow> py_error + int \<times> int \<times> int \<times> int" where
  "resolve_range parse_cell_range ws start_cell end_cell =
     (case cell_coords parse_cell_range ''start'' (pair_ref start_cell) start_cell of
        Inl e \<Rightarrow> Inl e
      | Inr (start_row, start_col) \<Rightarrow>
          (let no_end =
                 (if sheet_is_blank ws then (start_row, start_col, start_row, start_col)
                  else (min_row ws, min_column ws, max_row ws, max_column ws))
           in case end_cell of
                None \<Rightarrow> Inr no_end
              | Some e \<Rightarrow>
                  if e = [] then Inr no_end
                  else
                    (case cell_coords parse_cell_range ''end'' (pair_ref e) e of
                       Inl e \<Rightarrow> Inl e
                     | Inr (end_row, end_col) \<Rightarrow>
                         Inr (start_row, start_col, end_row, end_col))))"

text \<open>
  The warning's text is built before the early return; building it calls
  \<open>get_column_letter\<close> on the sheet's first and last column.
\<close>

definition boundary_warning :: "'f worksheet \<Rightarrow> py_error + unit" where
  "boundary_warning ws =
     (case get_column_letter (min_column ws) of
        Inl e \<Rightarrow> Inl e
      | Inr a \<Rightarrow> (case get_column_letter (max_column ws) of Inl e \<Rightarrow> Inl e | Inr b \<Rightarrow> Inr ()))"

text \<open>The inner loop: the cells of one row, appended to \<open>row_data\<close>.\<close>

fun read_cols :: "'f worksheet \<Rightarrow> int \<Rightarrow> int list \<Rightarrow> 'f pyval list \<Rightarrow> py_error + 'f pyval list" where
  "read_cols ws row [] row_data = Inr row_data"
| "read_cols ws row (col # cols) row_data =
     (case cell_value ws row col of
        Inl e \<Rightarrow> Inl e
      | Inr v \<Rightarrow> read_cols ws row cols (row_data @ [v]))"

text \<open>The outer loop: a row is appended to \<open>data\<close> when one of its values is not None.\<close>

fun read_rows ::
  "'f worksheet \<Rightarrow> int list \<Rightarrow> int list \<Rightarrow> 'f pyval list list \<Rightarrow> py_error + 'f pyval list list" where
  "read_rows ws [] cols data = Inr data"
| "read_rows ws (row # rows) cols data =
     (case read_cols ws row cols [] of
        Inl e \<Rightarrow> Inl e
      | Inr row_data \<Rightarrow>
          read_rows ws rows cols
            (if list_ex (\<lambda>v. \<not> is_none v) row_data then data @ [row_data] else data))"

definition read_sheet ::
  "parser \<Rightarrow> 'f worksheet \<Rightarrow> string \<Rightarrow> string option \<Rightarrow> py_error + 'f pyval list list" where
  "read_sheet parse_cell_range ws start_cell0 end_cell0 =
     (case split_start start_cell0 end_cell0 of
        Inl e \<Rightarrow> Inl e
      | Inr (start_cell, end_cell) \<Rightarrow>
          (case resolve_range parse_cell_range ws start_cell end_cell of
             Inl e \<Rightarrow> Inl e
           | Inr (start_row, start_col, end_row, end_col) \<Rightarrow>
               if start_row > max_row ws \<or> start_col > max_column ws then
                 (case boundary_warning ws of Inl e \<Rightarrow> Inl e | Inr u \<Rightarrow> Inr [])
               else read_rows ws [start_row..end_row] [start_col..end_col] []))"

definition sheet_not_found :: "string \<Rightarrow> py_error" where
  "sheet_not_found sheet_name =
     DataError (''Sheet '' @ [CHR 0x27] @ sheet_name @ [CHR 0x27] @ '' not found'')"

text \<open>\<open>wb[sheet_name]\<close> after the membership test: the first sheet of that title.\<close>

definition lookup_sheet :: "'f workbook \<Rightarrow> string \<Rightarrow> py_error + 'f worksheet" where
  "lookup_sheet wb sheet_name =
     (if sheet_name \<notin> set (sheetnames wb) then Inl (sheet_not_found sheet_name)
      else (case sheet_index (sheets wb) sheet_name of
              None \<Rightarrow> Inl (no_such_sheet sheet_name)
            | Some k \<Rightarrow> Inr (sheets wb ! k)))"

definition read_excel_range ::
  "parser \<Rightarrow> 'f files \<Rightarrow> string \<Rightarrow> string \<Rightarrow> string \<Rightarrow> string option
     \<Rightarrow> py_error + 'f pyval list list" where
  "read_excel_range parse_cell_range fs filepath sheet_name start_cell end_cell =
     map_sum to_data_error id
       (case load_workbook fs filepath of
          Inl e \<Rightarrow> Inl e
        | Inr wb \<Rightarrow>
            (case lookup_sheet wb sheet_name of
               Inl e \<Rightarrow> Inl e
             | Inr ws \<Rightarrow> read_sheet parse_cell_range ws start_cell end_cell))"

subsection \<open>Reading with metadata\<close>

text \<open>
  \<open>get_data_validation_for_cell\<close> lives in \<open>cell_validation\<close>, which is not among the
  sources, and is a parameter: it raises, or returns something falsy (\<open>None\<close>), or a
  descriptor of the open type \<open>'v\<close>.
\<close>

datatype 'v validation = Validation 'v | NoValidation

record ('f, 'v) cell_data =
  address :: string
  cd_value :: "'f pyval"
  cd_row :: int
  cd_column :: int
  cd_validation :: "'v validation option"

record ('f, 'v) range_data =
  range_str :: string
  rd_sheet_name :: string
  cell_records :: "('f, 'v) cell_data list"

type_synonym ('f, 'v) validator = "'f worksheet \<Rightarrow> string \<Rightarrow> py_error + 'v option"

definition metadata_range ::
  "parser \<Rightarrow> 'f worksheet \<Rightarrow> string \<Rightarrow> string option \<Rightarrow> py_error + int \<times> int \<times> int \<times> int" where
  "metadata_range parse_cell_range ws start_cell end_cell =
     (case cell_coords parse_cell_range ''start'' (pair_ref start_cell) start_cell of
        Inl e \<Rightarrow> Inl e
      | Inr (start_row, start_col) \<Rightarrow>
          (let no_end =
                 (if sheet_is_blank ws then (start_row, start_col, start_row, start_col)
                  else if start_cell = ''A1''
                  then (min_row ws, min_column ws, max_row ws, max_column ws)
                  else (start_row, start_col, max_row ws, max_column ws))
           in case end_cell of
                None \<Rightarrow> Inr no_end
              | Some e \<Rightarrow>
                  if e = [] then Inr no_end
                  else
                    (case cell_coords parse_cell_range ''end'' (pair_ref e) e of
                       Inl e \<Rightarrow> Inl e
                     | Inr (end_row, end_col) \<Rightarrow>
                         Inr (start_row, start_col, end_row, end_col))))"

definition cell_record ::
  "('f, 'v) validator \<Rightarrow> bool \<Rightarrow> 'f worksheet \<Rightarrow> int \<Rightarrow> int \<Rightarrow> py_error + ('f, 'v) cell_data" where
  "cell_record get_data_validation_for_cell include_validation ws row col =
     (case cell_value ws row col of
        Inl e \<Rightarrow> Inl e
      | Inr v \<Rightarrow>
          (case get_column_letter col of
             Inl e \<Rightarrow> Inl e
           | Inr letters \<Rightarrow>
               (let cell_address = letters @ str_of_int row in
                if include_validation then
                  (case get_data_validation_for_cell ws cell_address of
                     Inl e \<Rightarrow> Inl e
                   | Inr validation_info \<Rightarrow>
                       Inr \<lparr> address = cell_address, cd_value = v, cd_row = row, cd_column = col,
                             cd_validation =
                               Some (case validation_info of
                                       None \<Rightarrow> NoValidation | Some d \<Rightarrow> Validation d) \<rparr>)
                else
                  Inr \<lparr> address = cell_address, cd_value = v, cd_row = row, cd_column = col,
                        cd_validation = None \<rparr>)))"

fun record_cols ::
  "('f, 'v) validator \<Rightarrow> bool \<Rightarrow> 'f worksheet \<Rightarrow> int \<Rightarrow> int list \<Rightarrow> ('f, 'v) cell_data list
     \<Rightarrow> py_error + ('f, 'v) cell_data list" where
  "record_cols val incl ws row [] acc = Inr acc"
| "record_cols val incl ws row (col # cols) acc =
     (case cell_record val incl ws row col of
        Inl e \<Rightarrow> Inl e
      | Inr cell_data \<Rightarrow> record_cols val incl ws row cols (acc @ [cell_data]))"

fun record_rows ::
  "('f, 'v) validator \<Rightarrow> bool \<Rightarrow> 'f worksheet \<Rightarrow> int list \<Rightarrow> int list \<Rightarrow> ('f, 'v) cell_data list
     \<Rightarrow> py_error + ('f, 'v) cell_data list" where
  "record_rows val incl ws [] cols acc = Inr acc"
| "record_rows val incl ws (row # rows) cols acc =
     (case record_cols val incl ws row cols acc of
        Inl e \<Rightarrow> Inl e
      | Inr acc1 \<Rightarrow> record_rows val incl ws rows cols acc1)"

definition range_text :: "int \<Rightarrow> int \<Rightarrow> int \<Rightarrow> int \<Rightarrow> py_error + string" where
  "range_text start_row start_col end_row end_col =
     (case get_column_letter start_col of
        Inl e \<Rightarrow> Inl e
      | Inr a \<Rightarrow>
          (case get_column_letter end_col of
             Inl e \<Rightarrow> Inl e
           | Inr b \<Rightarrow> Inr (a @ str_of_int start_row @ '':'' @ b @ str_of_int end_row)))"

definition read_sheet_with_metadata ::
  "parser \<Rightarrow> ('f, 'v) validator \<Rightarrow> 'f worksheet \<Rightarrow> string \<Rightarrow> string \<Rightarrow> string option \<Rightarrow> bool
     \<Rightarrow> py_error + ('f, 'v) range_data" where
  "read_sheet_with_metadata parse_cell_range val ws sheet_name start_cell0 end_cell0
       include_validation =
     (case split_start start_cell0 end_cell0 of
        Inl e \<Rightarrow> Inl e
      | Inr (start_cell, end_cell) \<Rightarrow>
          (case metadata_range parse_cell_range ws start_cell end_cell of
             Inl e \<Rightarrow> Inl e
           | Inr (start_row, start_col, end_row, end_col) \<Rightarrow>
               if start_row > max_row ws \<or> start_col > max_column ws then
                 (case boundary_warning ws of
                    Inl e \<Rightarrow> Inl e
                  | Inr u \<Rightarrow>
                      Inr \<lparr> range_str = start_cell @ '':'', rd_sheet_name = sheet_name,
                            cell_records = [] \<rparr>)
               else
                 (case range_text start_row start_col end_row end_col of
                    Inl e \<Rightarrow> Inl e
                  | Inr text \<Rightarrow>
                      (case record_rows val include_validation ws [start_row..end_row]
                              [start_col..end_col] [] of
                         Inl e \<Rightarrow> Inl e
                       | Inr recs \<Rightarrow>
                           Inr \<lparr> range_str = text, rd_sheet_name = sheet_name,
                                 cell_records = recs \<rparr>))))"

definition read_excel_range_with_metadata ::
  "parser \<Rightarrow> ('f, 'v) validator \<Rightarrow> 'f files \<Rightarrow> string \<Rightarrow> string \<Rightarrow> string \<Rightarrow> string option
     \<Rightarrow> bool \<Rightarrow> py_error + ('f, 'v) range_data" where
  "read_excel_range_with_metadata parse_cell_range val fs filepath sheet_name start_cell
       end_cell include_validation =
     map_sum to_data_error id
       (case load_workbook fs filepath of
          Inl e \<Rightarrow> Inl e
        | Inr wb \<Rightarrow>
            (case lookup_sheet wb sheet_name of
               Inl e \<Rightarrow> Inl e
             | Inr ws \<Rightarrow>
                 read_sheet_with_metadata parse_cell_range val ws sheet_name start_cell
                   end_cell include_validation))"

section \<open>Notions the properties are stated with\<close>

text \<open>
  A trimmed string that fails every inference path: the first \<open>try\<close> raises, no date
  format parses, and the string is none of the boolean words.
\<close>

definition no_number :: "'f externals \<Rightarrow> string \<Rightarrow> bool" where
  "no_number ext str_value = isl (numeric_block ext str_value)"

definition no_date :: "'f externals \<Rightarrow> string \<Rightarrow> bool" where
  "no_date ext str_value = list_all (\<lambda>fmt. isl (strptime ext str_value fmt)) date_formats"

definition no_boolean :: "string \<Rightarrow> bool" where
  "no_boolean str_value =
     (py_lower str_value \<notin> set [''true'', ''false'', ''yes'', ''no'', ''1'', ''0''])"

text \<open>
  What the library guarantees of a worksheet's cells: rows and columns start at 1,
  and a column has a letter name.
\<close>

definition sheet_ok :: "'f worksheet \<Rightarrow> bool" where
  "sheet_ok ws =
     list_all (\<lambda>kv. 1 \<le> fst (fst kv) \<and> 1 \<le> snd (fst kv) \<and> snd (fst kv) \<le> 18278) (cells ws)"

text \<open>
  The values of a rectangle, row by row, and the rows among them that a plain read
  keeps.
\<close>

definition rect_values :: "'f worksheet \<Rightarrow> int \<Rightarrow> int \<Rightarrow> int \<Rightarrow> int \<Rightarrow> 'f pyval list list" where
  "rect_values ws start_row start_col end_row end_col =
     map (\<lambda>row. map (\<lambda>col. cvalue (cell_at ws row col)) [start_col..end_col])
       [start_row..end_row]"

definition has_value :: "'f pyval list \<Rightarrow> bool" where
  "has_value row_data = list_ex (\<lambda>v. \<not> is_none v) row_data"

text \<open>The position and value of every cell of a rectangle, in row-major order.\<close>

definition rect_cells :: "'f worksheet \<Rightarrow> int \<Rightarrow> int \<Rightarrow> int \<Rightarrow> int \<Rightarrow> (int \<times> int \<times> 'f pyval) list" where
  "rect_cells ws start_row start_col end_row end_col =
     concat (map (\<lambda>row. map (\<lambda>col. (row, col, cvalue (cell_at ws row col))) [start_col..end_col])
               [start_row..end_row])"

definition record_key :: "('f, 'v) cell_data \<Rightarrow> int \<times> int \<times> 'f pyval" where
  "record_key cd = (cd_row cd, cd_column cd, cd_value cd)"

text \<open>
  The values the library's value binding stores as they are, and the values that
  make it set a date format.
\<close>

definition storable :: "'f pyval \<Rightarrow> bool" where
  "storable v =
     (case v of VStr s \<Rightarrow> length s \<le> 32767 \<and> \<not> list_ex is_illegal_char s | _ \<Rightarrow> True)"




text \<open>
  A runtime and library fragment for evaluating the model on concrete inputs: a
  float is kept as the text it was read from and only a plain decimal literal is
  read as one, no text is read as a date, the digit limit is CPython's default, a
  number format counts as a date format when it holds one of the letters d, m, h, y,
  s, the number appended to a taken title is 1, and a saved file keeps every cell
  that has a value or a number format other than \<open>General\<close>.
\<close>

definition sample_float :: "string \<Rightarrow> py_error + string" where
  "sample_float s =
     (if rx_full [((\<lambda>c. c = CHR ''-''), Opt), (is_ascii_digit, Plus),
                  ((\<lambda>c. c = CHR ''.''), One), (is_ascii_digit, Plus)] s
      then Inr s else Inl (ValueError ''could not convert string to float''))"

definition is_blank_cell :: "'f cell \<Rightarrow> bool" where
  "is_blank_cell c = (is_none (cvalue c) \<and> number_format c = ''General'')"

definition saved_sheet :: "'f worksheet \<Rightarrow> 'f worksheet" where
  "saved_sheet ws = ws\<lparr>cells := filter (\<lambda>kv. \<not> is_blank_cell (snd kv)) (cells ws)\<rparr>"

definition sample_ext :: "string externals" where
  "sample_ext =
     \<lparr> py_float = sample_float,
       div100 = (\<lambda>x. x @ ''/100''),
       strptime = (\<lambda>s fmt. Inl (ValueError ''time data does not match format'')),
       py_repr = (\<lambda>v. []),
       int_max_str_digits = 4300,
       is_date_format = (\<lambda>fmt. list_ex (\<lambda>c. c \<in> set ''dmhysDMHYS'') fmt),
       duplicate_count = (\<lambda>names name. 1),
       stored_workbook = (\<lambda>wb. wb\<lparr>sheets := map saved_sheet (sheets wb)\<rparr>) \<rparr>"


text \<open>A workbook file with one sheet that holds 5 in A1, for evaluation.\<close>

definition sample_sheet :: "string worksheet" where
  "sample_sheet =
     \<lparr> title = ''Data'',
       cells = [((1, 1), \<lparr> cvalue = VInt 5, number_format = ''General'' \<rparr>)] \<rparr>"

definition sample_book :: "string workbook" where
  "sample_book = \<lparr> sheets = [sample_sheet], active_index = 0 \<rparr>"

definition sample_files :: "string files" where
  "sample_files = Map.empty(''/book.xlsx'' \<mapsto> sample_book)"

definition sample_validator :: "(string, string) validator" where
  "sample_validator ws cell_address = Inr None"

section \<open>Properties of type inference\<close>

lemma strip_Nil: "strip [] = []"
  by (simp add: strip_def)

lemma strip_all_space: "list_all py_isspace s \<Longrightarrow> strip s = []"
  by (auto simp: strip_def list_all_iff dest: set_dropWhileD)

lemma infer_str:
  "strip s \<noteq> [] \<Longrightarrow>
   infer_and_convert_data_type ext (VStr s) =
     (case numeric_block ext (strip s) of
        Inr r \<Rightarrow> Inr r
      | Inl e \<Rightarrow> if is_ValueError_or_TypeError e then after_numeric ext (strip s) else Inl e)"
  by (auto simp: infer_and_convert_data_type_def is_none_or_empty_def py_str_def strip_Nil Let_def)

lemma numeric_block_one: "numeric_block ext ''1'' = Inr (VInt 1, Some fmt_currency_integer)"
  by (auto simp: numeric_block_def endswith_char_def numeric_rest_def re_match_def
      currency_pattern_def is_currency_symbol_def is_digit_or_comma_def is_ascii_digit_def
      code_def as_int_def py_int_def int_isspace_def int_of_digits_def remove_char_def
      digit_val_def)

lemma numeric_block_zero: "numeric_block ext ''0'' = Inr (VInt 0, Some fmt_currency_integer)"
  by (auto simp: numeric_block_def endswith_char_def numeric_rest_def re_match_def
      currency_pattern_def is_currency_symbol_def is_digit_or_comma_def is_ascii_digit_def
      code_def as_int_def py_int_def int_isspace_def int_of_digits_def remove_char_def
      digit_val_def)

lemma code_char_of: "code (char_of (n::nat)) = n mod 256"
  by (simp add: code_def)

lemma lower_char_digit:
  assumes "lower_char c = d" and "code d < 97"
  shows "c = d"
proof (cases "lower_char c = c")
  case True
  with assms show ?thesis by simp
next
  case False
  then have r: "(65 \<le> code c \<and> code c \<le> 90) \<or> (192 \<le> code c \<and> code c \<le> 222)"
    and l: "lower_char c = char_of (code c + 32)"
    by (auto simp: lower_char_def split: if_splits)
  from assms l have "code (char_of (code c + 32)) = code d" by simp
  then have "(code c + 32) mod 256 = code d" by (simp add: code_char_of)
  moreover from r have "code c + 32 < 256" by arith
  ultimately have "code c + 32 = code d" by simp
  with r assms(2) have False by arith
  then show ?thesis ..
qed

lemma py_lower_one: "py_lower s = ''1'' \<Longrightarrow> s = ''1''"
  by (auto simp: py_lower_def code_def dest!: lower_char_digit)

lemma py_lower_zero: "py_lower s = ''0'' \<Longrightarrow> s = ''0''"
  by (auto simp: py_lower_def code_def dest!: lower_char_digit)

lemma as_float_not_bool: "as_float ext s fmt \<noteq> Inr (VBool b, f)"
  by (simp add: as_float_def split: sum.splits)

lemma as_int_not_bool: "as_int ext s fmt \<noteq> Inr (VBool b, f)"
  by (simp add: as_int_def split: sum.splits)

lemma numeric_rest_not_bool: "numeric_rest ext s \<noteq> Inr (VBool b, f)"
  by (simp add: numeric_rest_def Let_def as_float_not_bool as_int_not_bool)

lemma numeric_block_not_bool: "numeric_block ext s \<noteq> Inr (VBool b, f)"
  by (simp add: numeric_block_def Let_def numeric_rest_not_bool split: sum.splits)

lemma date_loop_not_bool: "date_loop ext s fmts \<noteq> Inr (Some (VBool b, f))"
proof (induction fmts)
  case Nil
  show ?case by simp
next
  case (Cons fmt fmts)
  show ?case
  proof (cases "strptime ext s fmt")
    case (Inl e)
    with Cons show ?thesis by simp
  next
    case (Inr d)
    then show ?thesis by (cases d) simp
  qed
qed

lemma boolean_or_text_bool:
  "(boolean_or_text s :: 'f inferred) = (VBool b, f) \<Longrightarrow>
   py_lower s \<in> set [''true'', ''false'', ''yes'', ''no'', ''1'', ''0'']"
  by (simp add: boolean_or_text_def split: if_splits)

lemma after_numeric_bool:
  "after_numeric (ext :: 'f externals) s = Inr (VBool b, f) \<Longrightarrow>
   (boolean_or_text s :: 'f inferred) = (VBool b, f)"
  by (auto simp: after_numeric_def date_loop_not_bool split: sum.splits option.splits if_splits)

text \<open>
  C5. A string that trims to \<open>1\<close> or \<open>0\<close> is inferred as the integer 1 or 0 (the
  currency check of the numeric block takes it), never as a boolean; and whenever the
  result is a boolean, the trimmed input is, in lower case, one of \<open>true\<close>,
  \<open>false\<close>, \<open>yes\<close>, \<open>no\<close>.
\<close>

theorem bare_digits_are_integers:
  "(strip s = ''1'' \<longrightarrow>
      infer_and_convert_data_type ext (VStr s) = Inr (VInt 1, Some fmt_currency_integer))
   \<and> (strip s = ''0'' \<longrightarrow>
      infer_and_convert_data_type ext (VStr s) = Inr (VInt 0, Some fmt_currency_integer))
   \<and> (infer_and_convert_data_type ext v = Inr (VBool b, f) \<longrightarrow>
      py_lower (strip (py_str ext v)) \<in> set [''true'', ''false'', ''yes'', ''no''])"
proof (intro conjI impI)
  assume "strip s = ''1''"
  then show "infer_and_convert_data_type ext (VStr s) = Inr (VInt 1, Some fmt_currency_integer)"
    by (simp add: infer_str numeric_block_one)
next
  assume "strip s = ''0''"
  then show "infer_and_convert_data_type ext (VStr s) = Inr (VInt 0, Some fmt_currency_integer)"
    by (simp add: infer_str numeric_block_zero)
next
  let ?t = "strip (py_str ext v)"
  assume a: "infer_and_convert_data_type ext v = Inr (VBool b, f)"
  then have ne: "?t \<noteq> []"
    by (auto simp: infer_and_convert_data_type_def Let_def split: if_splits)
  from a obtain e where raised: "numeric_block ext ?t = Inl e"
    and rest: "after_numeric ext ?t = Inr (VBool b, f)"
    by (auto simp: infer_and_convert_data_type_def Let_def numeric_block_not_bool
        split: if_splits sum.splits)
  from rest have "(boolean_or_text ?t :: 'a inferred) = (VBool b, f)"
    by (rule after_numeric_bool)
  then have six: "py_lower ?t \<in> set [''true'', ''false'', ''yes'', ''no'', ''1'', ''0'']"
    by (rule boolean_or_text_bool)
  have "py_lower ?t \<noteq> ''1''"
  proof
    assume "py_lower ?t = ''1''"
    then have "?t = ''1''" by (rule py_lower_one)
    with raised show False by (simp add: numeric_block_one)
  qed
  moreover have "py_lower ?t \<noteq> ''0''"
  proof
    assume "py_lower ?t = ''0''"
    then have "?t = ''0''" by (rule py_lower_zero)
    with raised show False by (simp add: numeric_block_zero)
  qed
  ultimately show "py_lower ?t \<in> set [''true'', ''false'', ''yes'', ''no'']"
    using six by auto
qed

theorem bare_digits_are_integers_witness:
  "infer_and_convert_data_type sample_ext (VStr '' 1'') = Inr (VInt 1, Some fmt_currency_integer)
   \<and> infer_and_convert_data_type sample_ext (VStr ''0 '') = Inr (VInt 0, Some fmt_currency_integer)
   \<and> infer_and_convert_data_type sample_ext (VStr ''Yes'') = Inr (VBool True, None)
   \<and> py_lower (strip (py_str sample_ext (VStr ''Yes''))) \<in> set [''true'', ''false'', ''yes'', ''no'']"
proof -
  have s1: "strip '' 1'' = ''1''" and s0: "strip ''0 '' = ''0''"
    by (simp_all add: strip_def py_isspace_def code_def)
  have y: "infer_and_convert_data_type sample_ext (VStr ''Yes'') = Inr (VBool True, None)"
    by code_simp
  from s1 s0 y
    bare_digits_are_integers [of "'' 1''" sample_ext "VStr ''Yes''" True None]
    bare_digits_are_integers [of "''0 ''" sample_ext "VStr ''Yes''" True None]
  show ?thesis by simp
qed

text \<open>
  C7. An absent value, the empty string and a string of whitespace only are inferred
  as no value with no display format.
\<close>

theorem blank_input_gives_none:
  "infer_and_convert_data_type ext VNone = Inr (VNone, None)
   \<and> infer_and_convert_data_type ext (VStr []) = Inr (VNone, None)
   \<and> (list_all py_isspace s \<longrightarrow>
        infer_and_convert_data_type ext (VStr s) = Inr (VNone, None))"
  by (simp add: infer_and_convert_data_type_def is_none_or_empty_def py_str_def
      strip_all_space)

theorem blank_input_gives_none_witness:
  "list_all py_isspace [CHR 0x20, CHR 0x09, CHR 0xA0]
   \<and> infer_and_convert_data_type sample_ext (VStr [CHR 0x20, CHR 0x09, CHR 0xA0])
       = Inr (VNone, None)"
proof -
  have h: "list_all py_isspace [CHR 0x20, CHR 0x09, CHR 0xA0]"
    by (simp add: py_isspace_def code_def)
  with blank_input_gives_none [of sample_ext "[CHR 0x20, CHR 0x09, CHR 0xA0]"]
  show ?thesis by simp
qed

text \<open>
  C1. The string \<open>1,000\<close> is inferred as the integer 1000 with the currency-integer
  format, not with the plain integer format: the currency pattern's symbol is
  optional, so the pattern takes every string the plain-number check would take
  unless it starts with a minus sign.
\<close>

theorem thousands_get_currency_format:
  "infer_and_convert_data_type sample_ext (VStr ''1,000'')
     = Inr (VInt 1000, Some fmt_currency_integer)
   \<and> fmt_currency_integer \<noteq> fmt_integer
   \<and> infer_and_convert_data_type sample_ext (VStr ''-1,000'')
     = Inr (VInt (- 1000), Some fmt_integer)"
  by code_simp

lemma int_of_digits_error: "int_of_digits l s = Inl e \<Longrightarrow> is_ValueError e"
  by (auto simp: int_of_digits_def invalid_literal_def Let_def split: if_splits)

lemma py_int_error: "py_int l s = Inl e \<Longrightarrow> is_ValueError e"
  by (auto simp: py_int_def invalid_literal_def Let_def map_sum_def
      split: list.splits if_splits sum.splits dest: int_of_digits_error)

lemma as_int_error: "as_int ext s fmt = Inl e \<Longrightarrow> is_ValueError_or_TypeError e"
  by (cases e) (auto simp: as_int_def split: sum.splits dest: py_int_error)

lemma as_float_error:
  assumes "\<forall>t e. py_float ext t = Inl e \<longrightarrow> is_ValueError_or_TypeError e"
  shows "as_float ext s fmt = Inl e \<Longrightarrow> is_ValueError_or_TypeError e"
  using assms by (auto simp: as_float_def split: sum.splits)

lemma numeric_rest_error:
  assumes "\<forall>t e. py_float ext t = Inl e \<longrightarrow> is_ValueError_or_TypeError e"
  shows "numeric_rest ext s = Inl e \<Longrightarrow> is_ValueError_or_TypeError e"
  using as_float_error [OF assms] as_int_error
  by (auto simp: numeric_rest_def Let_def split: if_splits)

lemma numeric_block_error:
  assumes "\<forall>t e. py_float ext t = Inl e \<longrightarrow> is_ValueError_or_TypeError e"
  shows "numeric_block ext s = Inl e \<Longrightarrow> is_ValueError_or_TypeError e"
  using numeric_rest_error [OF assms] assms
  by (auto simp: numeric_block_def Let_def split: if_splits sum.splits)

lemma date_loop_error:
  assumes "\<forall>t fmt e. strptime ext t fmt = Inl e \<longrightarrow> is_ValueError_or_TypeError e"
  shows "date_loop ext s fmts = Inl e \<Longrightarrow> is_ValueError_or_TypeError e"
proof (induction fmts)
  case Nil
  then show ?case by simp
next
  case (Cons fmt fmts)
  show ?case
  proof (cases "strptime ext s fmt")
    case (Inl e')
    with Cons assms show ?thesis by (auto split: if_splits)
  next
    case (Inr d)
    with Cons.prems show ?thesis by (auto split: if_splits)
  qed
qed

lemma after_numeric_total:
  assumes "\<forall>t fmt e. strptime ext t fmt = Inl e \<longrightarrow> is_ValueError_or_TypeError e"
  shows "\<exists>r. after_numeric ext s = Inr r"
  using date_loop_error [OF assms, of s date_formats]
  by (cases "date_loop ext s date_formats") (auto simp: after_numeric_def split: option.splits)

lemma infer_total:
  assumes "\<forall>t e. py_float ext t = Inl e \<longrightarrow> is_ValueError_or_TypeError e"
    and "\<forall>t fmt e. strptime ext t fmt = Inl e \<longrightarrow> is_ValueError_or_TypeError e"
  shows "\<exists>r. infer_and_convert_data_type ext v = Inr r"
proof -
  let ?t = "strip (py_str ext v)"
  show ?thesis
  proof (cases "numeric_block ext ?t")
    case (Inr r)
    then show ?thesis by (simp add: infer_and_convert_data_type_def Let_def)
  next
    case (Inl e)
    then have "is_ValueError_or_TypeError e" by (rule numeric_block_error [OF assms(1)])
    with Inl after_numeric_total [OF assms(2), of ?t] show ?thesis
      by (auto simp: infer_and_convert_data_type_def Let_def)
  qed
qed

lemma date_loop_no_date:
  "list_all (\<lambda>fmt. isl (strptime ext s fmt)) fmts \<Longrightarrow> date_loop ext s fmts \<noteq> Inr (Some r)"
  by (induction fmts) (auto split: sum.splits if_splits)

lemma after_numeric_fallback:
  assumes "\<forall>t fmt e. strptime ext t fmt = Inl e \<longrightarrow> is_ValueError_or_TypeError e"
    and "no_date ext s"
  shows "after_numeric ext s = Inr (boolean_or_text s)"
  using date_loop_error [OF assms(1), of s date_formats]
    date_loop_no_date [of ext s date_formats] assms(2)
  by (auto simp: after_numeric_def no_date_def split: sum.splits option.splits)

text \<open>
  C6. When \<open>float\<close> and \<open>strptime\<close> raise nothing but ValueError or TypeError, type
  inference returns a result for every string, and a string whose trimmed form is
  not empty and fails every inference path comes back as that trimmed text with no
  display format.
\<close>

theorem infer_total_on_strings:
  assumes "\<forall>t e. py_float ext t = Inl e \<longrightarrow> is_ValueError_or_TypeError e"
    and "\<forall>t fmt e. strptime ext t fmt = Inl e \<longrightarrow> is_ValueError_or_TypeError e"
  shows "(\<exists>r. infer_and_convert_data_type ext (VStr s) = Inr r)
     \<and> (strip s \<noteq> [] \<and> no_number ext (strip s) \<and> no_date ext (strip s) \<and> no_boolean (strip s)
          \<longrightarrow> infer_and_convert_data_type ext (VStr s) = Inr (VStr (strip s), None))"
proof (intro conjI impI)
  show "\<exists>r. infer_and_convert_data_type ext (VStr s) = Inr r"
    by (rule infer_total [OF assms])
next
  assume h: "strip s \<noteq> [] \<and> no_number ext (strip s) \<and> no_date ext (strip s)
               \<and> no_boolean (strip s)"
  then obtain e where raised: "numeric_block ext (strip s) = Inl e"
    by (auto simp: no_number_def isl_def)
  then have caught: "is_ValueError_or_TypeError e" by (rule numeric_block_error [OF assms(1)])
  from h have "after_numeric ext (strip s) = Inr (boolean_or_text (strip s))"
    by (simp add: after_numeric_fallback [OF assms(2)])
  moreover from h have "(boolean_or_text (strip s) :: 'a inferred) = (VStr (strip s), None)"
    by (simp add: boolean_or_text_def no_boolean_def)
  ultimately show "infer_and_convert_data_type ext (VStr s) = Inr (VStr (strip s), None)"
    using h raised caught by (simp add: infer_str)
qed

lemma sample_float_error:
  "\<forall>t e. py_float sample_ext t = Inl e \<longrightarrow> is_ValueError_or_TypeError e"
  by (auto simp: sample_ext_def sample_float_def split: if_splits)

lemma sample_strptime_error:
  "\<forall>t fmt e. strptime sample_ext t fmt = Inl e \<longrightarrow> is_ValueError_or_TypeError e"
  by (auto simp: sample_ext_def)

theorem infer_total_on_strings_witness:
  "strip '' hello '' = ''hello'' \<and> no_number sample_ext ''hello'' \<and> no_date sample_ext ''hello''
   \<and> no_boolean ''hello''
   \<and> infer_and_convert_data_type sample_ext (VStr '' hello '') = Inr (VStr ''hello'', None)"
proof -
  have s: "strip '' hello '' = ''hello''"
    by (simp add: strip_def py_isspace_def code_def)
  have n: "no_number sample_ext ''hello''" by code_simp
  have d: "no_date sample_ext ''hello''" by code_simp
  have b: "no_boolean ''hello''" by code_simp
  from infer_total_on_strings [OF sample_float_error sample_strptime_error, of "'' hello ''"]
    s n d b
  show ?thesis by simp
qed

text \<open>
  A string of two spaces fails every inference path as well, and its result is no
  value at all rather than the empty trimmed text.
\<close>

theorem blank_string_is_not_text:
  "no_number sample_ext (strip ''  '') \<and> no_date sample_ext (strip ''  '')
   \<and> no_boolean (strip ''  '')
   \<and> infer_and_convert_data_type sample_ext (VStr ''  '') = Inr (VNone, None)
   \<and> infer_and_convert_data_type sample_ext (VStr ''  '') \<noteq> Inr (VStr (strip ''  ''), None)"
  by code_simp

section \<open>Properties of path resolution\<close>

text \<open>
  C9. \<open>get_excel_path\<close> returns an absolute filename unchanged; for a relative
  filename it raises a ValueError when no base directory is configured and otherwise
  returns the base directory joined with the filename.
\<close>

theorem get_excel_path_cases:
  "(isabs os filename \<longrightarrow> get_excel_path os base filename = Inr filename)
   \<and> (\<not> isabs os filename \<longrightarrow>
        get_excel_path os None filename =
          Inl (ValueError (''Invalid filename: '' @ filename
                 @ '', must be an absolute path when not in SSE mode''))
        \<and> get_excel_path os (Some dir) filename = Inr (join os dir filename))"
  by (simp add: get_excel_path_def)

theorem get_excel_path_cases_witness:
  "isabs posix_path ''/tmp/a.xlsx''
   \<and> get_excel_path posix_path (Some ''./excel_files'') ''/tmp/a.xlsx'' = Inr ''/tmp/a.xlsx''
   \<and> \<not> isabs posix_path ''a.xlsx''
   \<and> is_ValueError (projl (get_excel_path posix_path None ''a.xlsx''))
   \<and> get_excel_path posix_path (Some ''./excel_files'') ''a.xlsx'' = Inr ''./excel_files/a.xlsx''"
proof -
  have a: "isabs posix_path ''/tmp/a.xlsx''" and r: "\<not> isabs posix_path ''a.xlsx''"
    by (simp_all add: posix_path_def)
  have j: "join posix_path ''./excel_files'' ''a.xlsx'' = ''./excel_files/a.xlsx''"
    by (simp add: posix_path_def endswith_char_def)
  from a r j
    get_excel_path_cases [of posix_path "''/tmp/a.xlsx''" "Some ''./excel_files''" "''x''"]
    get_excel_path_cases [of posix_path "''a.xlsx''" None "''./excel_files''"]
  show ?thesis by simp
qed

section \<open>Properties of writing\<close>

text \<open>
  C4. Writing with no rows, or with no data at all, fails with the DataError
  \<open>No data provided to write\<close> and leaves the files, and the worksheet, as they
  were.
\<close>

theorem write_without_data_fails:
  "write_data parse_cell_range ext fs filepath sheet_name None start_cell auto_detect_types
     = (fs, Inl (DataError ''No data provided to write''))
   \<and> write_data parse_cell_range ext fs filepath sheet_name (Some []) start_cell
        auto_detect_types
     = (fs, Inl (DataError ''No data provided to write''))
   \<and> write_data_to_worksheet parse_cell_range ext ws [] start_cell auto_detect_types
     = (ws, Inl (DataError ''No data provided to write''))"
  by (simp add: write_data_def write_data_body_def write_data_to_worksheet_def no_data_def
      to_data_error_def)

theorem write_without_data_fails_witness:
  "write_data parse_cell_range_spec sample_ext sample_files ''/book.xlsx'' (Some ''Data'')
       (Some []) ''A1'' True
     = (sample_files, Inl (DataError ''No data provided to write''))"
  using write_without_data_fails
    [of parse_cell_range_spec sample_ext sample_files "''/book.xlsx''" "Some ''Data''" "''A1''" True]
  by simp

lemma cell_at_update:
  "cell_at (ws\<lparr>cells := AList.update (r0, c0) x (cells ws)\<rparr>) r c =
     (if r = r0 \<and> c = c0 then x else cell_at ws r c)"
  by (simp add: cell_at_def update_conv')



lemma check_string_storable:
  "length s \<le> 32767 \<Longrightarrow> \<not> list_ex is_illegal_char s \<Longrightarrow> check_string s = Inr s"
  by (simp add: check_string_def)

lemma bind_value_storable:
  "storable v \<Longrightarrow> \<exists>b. bind_value ext cell v = Inr b \<and> cvalue b = v"
  by (cases v) (simp_all add: storable_def bind_value_def check_string_storable)



lemma set_value_storable:
  assumes "storable v"
  shows "\<exists>ws2. set_value ext ws r0 c0 v = Inr ws2
           \<and> cvalue (cell_at ws2 r c) = (if r = r0 \<and> c = c0 then v else cvalue (cell_at ws r c))"
proof -
  from bind_value_storable [OF assms, of ext "cell_at ws r0 c0"]
  obtain b where b: "bind_value ext (cell_at ws r0 c0) v = Inr b" "cvalue b = v" by auto
  then show ?thesis by (simp add: set_value_def cell_at_update)
qed


























section \<open>Properties of reading\<close>

lemma read_cols_values:
  "1 \<le> row \<Longrightarrow> list_all (\<lambda>c. 1 \<le> c) cols \<Longrightarrow>
   read_cols ws row cols acc = Inr (acc @ map (\<lambda>col. cvalue (cell_at ws row col)) cols)"
  by (induction cols arbitrary: acc) (simp_all add: cell_value_def)

lemma read_rows_values:
  "list_all (\<lambda>r. 1 \<le> r) rows \<Longrightarrow> list_all (\<lambda>c. 1 \<le> c) cols \<Longrightarrow>
   read_rows ws rows cols data =
     Inr (data @ filter has_value
                   (map (\<lambda>row. map (\<lambda>col. cvalue (cell_at ws row col)) cols) rows))"
  by (induction rows arbitrary: data) (simp_all add: read_cols_values has_value_def)

lemma upto_all_ge: "a \<le> i \<Longrightarrow> list_all (\<lambda>r. a \<le> r) [i..j]"
  by (simp add: list_all_iff)

lemma read_rect:
  "1 \<le> r0 \<Longrightarrow> 1 \<le> c0 \<Longrightarrow>
   read_rows ws [r0..r1] [c0..c1] [] = Inr (filter has_value (rect_values ws r0 c0 r1 c1))"
  by (simp add: read_rows_values upto_all_ge rect_values_def)

lemma get_column_letter_ok:
  "1 \<le> c \<Longrightarrow> c \<le> 18278 \<Longrightarrow> get_column_letter c = Inr (column_letters (nat c))"
  by (simp add: get_column_letter_def)

lemma cell_record_ok:
  assumes "val ws (column_letters (nat col) @ str_of_int row) = Inr d"
    and "1 \<le> row" and "1 \<le> col" and "col \<le> 18278"
  shows "\<exists>cd. cell_record val incl ws row col = Inr cd
           \<and> record_key cd = (row, col, cvalue (cell_at ws row col))"
  using assms
  by (cases incl)
    (simp_all add: cell_record_def cell_value_def get_column_letter_ok Let_def record_key_def)

lemma record_cols_keys:
  assumes "\<forall>a. \<not> isl (val ws a)" and "1 \<le> row"
  shows "list_all (\<lambda>c. 1 \<le> c \<and> c \<le> 18278) cols \<Longrightarrow>
    \<exists>recs. record_cols val incl ws row cols acc = Inr recs
      \<and> map record_key recs
          = map record_key acc @ map (\<lambda>col. (row, col, cvalue (cell_at ws row col))) cols"
proof (induction cols arbitrary: acc)
  case Nil
  show ?case by simp
next
  case (Cons col cols)
  from assms(1) have "\<not> isl (val ws (column_letters (nat col) @ str_of_int row))" by simp
  then obtain d where v: "val ws (column_letters (nat col) @ str_of_int row) = Inr d"
    by (cases "val ws (column_letters (nat col) @ str_of_int row)") simp_all
  from Cons.prems have c: "1 \<le> col" "col \<le> 18278"
    and rest: "list_all (\<lambda>c. 1 \<le> c \<and> c \<le> 18278) cols"
    by simp_all
  from cell_record_ok [where val = val and ws = ws, OF v assms(2) c, of incl]
  obtain cd where cr: "cell_record val incl ws row col = Inr cd"
    and key: "record_key cd = (row, col, cvalue (cell_at ws row col))"
    by auto
  from Cons.IH [OF rest, of "acc @ [cd]"] cr key show ?case by auto
qed

lemma record_rows_keys:
  assumes "\<forall>a. \<not> isl (val ws a)" and "list_all (\<lambda>c. 1 \<le> c \<and> c \<le> 18278) cols"
  shows "list_all (\<lambda>r. 1 \<le> r) rows \<Longrightarrow>
    \<exists>recs. record_rows val incl ws rows cols acc = Inr recs
      \<and> map record_key recs
          = map record_key acc
            @ concat (map (\<lambda>row. map (\<lambda>col. (row, col, cvalue (cell_at ws row col))) cols) rows)"
proof (induction rows arbitrary: acc)
  case Nil
  show ?case by simp
next
  case (Cons row rows)
  then have r: "1 \<le> row" and rest: "list_all (\<lambda>r. 1 \<le> r) rows" by simp_all
  from record_cols_keys [where val = val and ws = ws, OF assms(1) r assms(2), of incl acc]
  obtain acc1 where c: "record_cols val incl ws row cols acc = Inr acc1"
    and k: "map record_key acc1
          = map record_key acc @ map (\<lambda>col. (row, col, cvalue (cell_at ws row col))) cols"
    by auto
  from Cons.IH [OF rest, of acc1] c k show ?case by auto
qed

lemma record_rect:
  assumes "\<forall>a. \<not> isl (val ws a)" and "1 \<le> r0" and "1 \<le> c0" and "c1 \<le> 18278"
  shows "\<exists>recs. record_rows val incl ws [r0..r1] [c0..c1] [] = Inr recs
           \<and> map record_key recs = rect_cells ws r0 c0 r1 c1"
proof -
  from assms(3,4) have cols: "list_all (\<lambda>c. 1 \<le> c \<and> c \<le> 18278) [c0..c1]"
    by (simp add: list_all_iff)
  from assms(2) have rows: "list_all (\<lambda>r. 1 \<le> r) [r0..r1]" by (rule upto_all_ge)
  from record_rows_keys [where val = val and ws = ws, OF assms(1) cols rows, of incl "[]"]
  show ?thesis by (simp add: rect_cells_def)
qed

lemma sheet_ok_dims:
  assumes "sheet_ok ws"
  shows "1 \<le> min_row ws \<and> min_row ws \<le> max_row ws
       \<and> 1 \<le> min_column ws \<and> min_column ws \<le> max_column ws \<and> max_column ws \<le> 18278"
proof (cases "cells ws = []")
  case True
  then show ?thesis by (simp add: min_row_def max_row_def min_column_def max_column_def)
next
  case False
  let ?R = "set (cell_rows ws)" and ?C = "set (cell_columns ws)"
  from False have ne: "?R \<noteq> {}" "?C \<noteq> {}" by (simp_all add: cell_rows_def cell_columns_def)
  have fin: "finite ?R" "finite ?C" by simp_all
  from assms have rb: "\<forall>x\<in>?R. 1 \<le> x" and cb: "\<forall>x\<in>?C. 1 \<le> x \<and> x \<le> 18278"
    by (auto simp: sheet_ok_def cell_rows_def cell_columns_def list_all_iff)
  from ne have "Min ?R \<in> ?R" "Min ?C \<in> ?C" "Max ?C \<in> ?C"
    by (auto intro: Min_in Max_in)
  with rb cb have "1 \<le> Min ?R" "1 \<le> Min ?C" "Max ?C \<le> 18278" by auto
  moreover from ne have "Min ?R \<le> Max ?R" "Min ?C \<le> Max ?C"
    by (auto intro: Min_le Max_in)
  ultimately show ?thesis using False
    by (simp add: min_row_def max_row_def min_column_def max_column_def)
qed

lemma boundary_warning_ok: "sheet_ok ws \<Longrightarrow> boundary_warning ws = Inr ()"
  using sheet_ok_dims [of ws] by (simp add: boundary_warning_def get_column_letter_def)

text \<open>
  C2. On a sheet whose cells lie at rows and columns the library allows, a start
  cell beyond the sheet's last row or last column gives the empty list when an end
  cell is given and parses. When no end cell is given and the sheet is not empty, the
  start cell is dropped in favour of the sheet's own first cell, and the result is the
  read of the sheet's whole boundary.
\<close>

theorem start_beyond_boundary:
  assumes "fs filepath = Some wb" and "lookup_sheet wb sheet_name = Inr ws" and "sheet_ok ws"
    and "CHR '':'' \<notin> set start_cell"
    and "cell_coords parse_cell_range ''start'' (pair_ref start_cell) start_cell = Inr (r, c)"
    and "max_row ws < r \<or> max_column ws < c"
  shows "(e \<noteq> [] \<and> cell_coords parse_cell_range ''end'' (pair_ref e) e = Inr (er, ec)
          \<longrightarrow> read_excel_range parse_cell_range fs filepath sheet_name start_cell (Some e) = Inr [])
     \<and> (\<not> sheet_is_blank ws
          \<longrightarrow> read_excel_range parse_cell_range fs filepath sheet_name start_cell None
                = Inr (filter has_value
                         (rect_values ws (min_row ws) (min_column ws) (max_row ws) (max_column ws))))"
proof (intro conjI impI)
  assume h: "e \<noteq> [] \<and> cell_coords parse_cell_range ''end'' (pair_ref e) e = Inr (er, ec)"
  with assms(4,5) have "resolve_range parse_cell_range ws start_cell (Some e) = Inr (r, c, er, ec)"
    by (simp add: resolve_range_def)
  with assms(4,6) boundary_warning_ok [OF assms(3)]
  have "read_sheet parse_cell_range ws start_cell (Some e) = Inr []"
    by (auto simp: read_sheet_def split_start_def)
  with assms(1,2)
  show "read_excel_range parse_cell_range fs filepath sheet_name start_cell (Some e) = Inr []"
    by (simp add: read_excel_range_def load_workbook_def)
next
  assume h: "\<not> sheet_is_blank ws"
  with assms(5) have "resolve_range parse_cell_range ws start_cell None
      = Inr (min_row ws, min_column ws, max_row ws, max_column ws)"
    by (simp add: resolve_range_def)
  with assms(4) sheet_ok_dims [OF assms(3)]
  have "read_sheet parse_cell_range ws start_cell None
          = Inr (filter has_value
                   (rect_values ws (min_row ws) (min_column ws) (max_row ws) (max_column ws)))"
    by (simp add: read_sheet_def split_start_def read_rect)
  with assms(1,2)
  show "read_excel_range parse_cell_range fs filepath sheet_name start_cell None
          = Inr (filter has_value
                   (rect_values ws (min_row ws) (min_column ws) (max_row ws) (max_column ws)))"
    by (simp add: read_excel_range_def load_workbook_def)
qed

theorem start_beyond_boundary_witness:
  "cell_coords parse_cell_range_spec ''start'' (pair_ref ''C3'') ''C3'' = Inr (3, 3)
   \<and> max_row sample_sheet < 3
   \<and> cell_coords parse_cell_range_spec ''end'' (pair_ref ''D4'') ''D4'' = Inr (4, 4)
   \<and> read_excel_range parse_cell_range_spec sample_files ''/book.xlsx'' ''Data'' ''C3''
         (Some ''D4'') = Inr []
   \<and> \<not> sheet_is_blank sample_sheet
   \<and> read_excel_range parse_cell_range_spec sample_files ''/book.xlsx'' ''Data'' ''C3'' None
       = Inr (filter has_value (rect_values sample_sheet 1 1 1 1))"
proof -
  have f: "sample_files ''/book.xlsx'' = Some sample_book"
    by (simp add: sample_files_def)
  have l: "lookup_sheet sample_book ''Data'' = Inr sample_sheet"
    by (simp add: lookup_sheet_def sample_book_def sheetnames_def sample_sheet_def)
  have k: "sheet_ok sample_sheet"
    by (simp add: sheet_ok_def sample_sheet_def)
  have n: "CHR '':'' \<notin> set ''C3''" by simp
  have c: "cell_coords parse_cell_range_spec ''start'' (pair_ref ''C3'') ''C3'' = Inr (3, 3)"
    by code_simp
  have d: "min_row sample_sheet = 1" "min_column sample_sheet = 1"
    "max_row sample_sheet = 1" "max_column sample_sheet = 1"
    by (simp_all add: min_row_def min_column_def max_row_def max_column_def cell_rows_def
        cell_columns_def sample_sheet_def)
  then have b: "max_row sample_sheet < 3 \<or> max_column sample_sheet < 3" by simp
  have e: "cell_coords parse_cell_range_spec ''end'' (pair_ref ''D4'') ''D4'' = Inr (4, 4)"
    by code_simp
  have p: "\<not> sheet_is_blank sample_sheet" by code_simp
  from c d e p
    start_beyond_boundary [where fs = sample_files and filepath = "''/book.xlsx''"
      and wb = sample_book and sheet_name = "''Data''" and ws = sample_sheet
      and start_cell = "''C3''" and parse_cell_range = parse_cell_range_spec
      and r = 3 and c = 3 and e = "''D4''" and er = 4 and ec = 4, OF f l k n c b]
  show ?thesis by simp
qed

text \<open>
  On the sample file, whose sheet holds 5 in A1, a read from C3 with no end cell
  returns the row with the 5.
\<close>

theorem start_beyond_boundary_without_end:
  "\<not> sheet_is_blank sample_sheet
   \<and> cell_coords parse_cell_range_spec ''start'' (pair_ref ''C3'') ''C3'' = Inr (3, 3)
   \<and> max_row sample_sheet < 3 \<and> max_column sample_sheet < 3
   \<and> read_excel_range parse_cell_range_spec sample_files ''/book.xlsx'' ''Data'' ''C3'' None
       = Inr [[VInt 5]]"
  by code_simp

lemma beyond_max_row:
  assumes "max_row ws < r"
  shows "cell_at ws r c = default_cell"
proof (cases "map_of (cells ws) (r, c)")
  case None
  then show ?thesis by (simp add: cell_at_def)
next
  case (Some x)
  then have "((r, c), x) \<in> set (cells ws)" by (rule map_of_SomeD)
  then have ne: "cells ws \<noteq> []" and "r \<in> set (cell_rows ws)"
    by (auto simp: cell_rows_def intro: rev_image_eqI)
  then have "r \<le> Max (set (cell_rows ws))" by simp
  with ne assms show ?thesis by (simp add: max_row_def)
qed

lemma beyond_max_column:
  assumes "max_column ws < c"
  shows "cell_at ws r c = default_cell"
proof (cases "map_of (cells ws) (r, c)")
  case None
  then show ?thesis by (simp add: cell_at_def)
next
  case (Some x)
  then have "((r, c), x) \<in> set (cells ws)" by (rule map_of_SomeD)
  then have ne: "cells ws \<noteq> []" and "c \<in> set (cell_columns ws)"
    by (auto simp: cell_columns_def intro: rev_image_eqI)
  then have "c \<le> Max (set (cell_columns ws))" by simp
  with ne assms show ?thesis by (simp add: max_column_def)
qed

lemma no_row_has_value:
  assumes "\<forall>r c. r0 \<le> r \<and> c0 \<le> c \<longrightarrow> cell_at ws r c = default_cell"
  shows "filter has_value (rect_values ws r0 c0 r1 c1) = []"
  using assms
  by (auto simp: rect_values_def has_value_def filter_empty_conv list_ex_iff default_cell_def
      is_none_def)

lemma beyond_boundary_rect:
  assumes "max_row ws < r0 \<or> max_column ws < c0"
  shows "filter has_value (rect_values ws r0 c0 r1 c1) = []"
proof (rule no_row_has_value, intro allI impI)
  fix r c
  assume "r0 \<le> r \<and> c0 \<le> c"
  with assms have "max_row ws < r \<or> max_column ws < c" by auto
  then show "cell_at ws r c = default_cell"
    using beyond_max_row beyond_max_column by blast
qed


text \<open>
  C8. For a resolved rectangle whose start row and column are at least 1, on a sheet
  whose cells lie where the library allows: a plain read returns, in row order,
  exactly the rows of the rectangle that hold a value that is not None, each with
  its cells in column order. A read with metadata returns one record for every
  cell of the rectangle, in row-major order, empty cells included, when the start
  lies within the sheet's last row and column (and the columns have a letter name
  and the validation lookup does not raise); when the start lies beyond, it returns
  no record at all.
\<close>

theorem read_keeps_rows_with_values:
  "(sheet_ok ws \<and> split_start start_cell0 end_cell0 = Inr (start_cell, end_cell)
      \<and> resolve_range parse_cell_range ws start_cell end_cell = Inr (r0, c0, r1, c1)
      \<and> 1 \<le> r0 \<and> 1 \<le> c0
    \<longrightarrow> read_sheet parse_cell_range ws start_cell0 end_cell0
          = Inr (filter has_value (rect_values ws r0 c0 r1 c1)))
   \<and> (split_start start_cell0 end_cell0 = Inr (start_cell, end_cell)
      \<and> metadata_range parse_cell_range ws start_cell end_cell = Inr (r0, c0, r1, c1)
      \<and> r0 \<le> max_row ws \<and> c0 \<le> max_column ws \<and> 1 \<le> r0 \<and> 1 \<le> c0
      \<and> c0 \<le> 18278 \<and> 1 \<le> c1 \<and> c1 \<le> 18278 \<and> (\<forall>a. \<not> isl (val ws a))
    \<longrightarrow> (\<exists>rd. read_sheet_with_metadata parse_cell_range val ws sheet_name start_cell0 end_cell0
                  include_validation = Inr rd
              \<and> map record_key (cell_records rd) = rect_cells ws r0 c0 r1 c1))
   \<and> (sheet_ok ws \<and> split_start start_cell0 end_cell0 = Inr (start_cell, end_cell)
      \<and> metadata_range parse_cell_range ws start_cell end_cell = Inr (r0, c0, r1, c1)
      \<and> (max_row ws < r0 \<or> max_column ws < c0)
    \<longrightarrow> read_sheet_with_metadata parse_cell_range val ws sheet_name start_cell0 end_cell0
            include_validation
          = Inr \<lparr> range_str = start_cell @ '':'', rd_sheet_name = sheet_name,
                  cell_records = [] \<rparr>)"
proof (intro conjI impI)
  assume h: "sheet_ok ws \<and> split_start start_cell0 end_cell0 = Inr (start_cell, end_cell)
      \<and> resolve_range parse_cell_range ws start_cell end_cell = Inr (r0, c0, r1, c1)
      \<and> 1 \<le> r0 \<and> 1 \<le> c0"
  show "read_sheet parse_cell_range ws start_cell0 end_cell0
          = Inr (filter has_value (rect_values ws r0 c0 r1 c1))"
  proof (cases "max_row ws < r0 \<or> max_column ws < c0")
    case True
    from h have "boundary_warning ws = Inr ()" by (simp add: boundary_warning_ok)
    with h True beyond_boundary_rect [OF True, of r1 c1] show ?thesis
      by (auto simp: read_sheet_def)
  next
    case False
    with h show ?thesis by (simp add: read_sheet_def read_rect)
  qed
next
  assume h: "split_start start_cell0 end_cell0 = Inr (start_cell, end_cell)
      \<and> metadata_range parse_cell_range ws start_cell end_cell = Inr (r0, c0, r1, c1)
      \<and> r0 \<le> max_row ws \<and> c0 \<le> max_column ws \<and> 1 \<le> r0 \<and> 1 \<le> c0
      \<and> c0 \<le> 18278 \<and> 1 \<le> c1 \<and> c1 \<le> 18278 \<and> (\<forall>a. \<not> isl (val ws a))"
  then have v: "\<forall>a. \<not> isl (val ws a)" and r: "1 \<le> r0" and c: "1 \<le> c0" "c1 \<le> 18278"
    by simp_all
  obtain recs where
    recs: "record_rows val include_validation ws [r0..r1] [c0..c1] [] = Inr recs"
    and keys: "map record_key recs = rect_cells ws r0 c0 r1 c1"
    using record_rect [where val = val and ws = ws, OF v r c, of include_validation r1] by auto
  from h have t: "range_text r0 c0 r1 c1
      = Inr (column_letters (nat c0) @ str_of_int r0 @ '':'' @ column_letters (nat c1) @ str_of_int r1)"
    by (simp add: range_text_def get_column_letter_ok)
  from h recs keys t
  show "\<exists>rd. read_sheet_with_metadata parse_cell_range val ws sheet_name start_cell0 end_cell0
                  include_validation = Inr rd
              \<and> map record_key (cell_records rd) = rect_cells ws r0 c0 r1 c1"
    by (simp add: read_sheet_with_metadata_def)
next
  assume h: "sheet_ok ws \<and> split_start start_cell0 end_cell0 = Inr (start_cell, end_cell)
      \<and> metadata_range parse_cell_range ws start_cell end_cell = Inr (r0, c0, r1, c1)
      \<and> (max_row ws < r0 \<or> max_column ws < c0)"
  then have "boundary_warning ws = Inr ()" by (simp add: boundary_warning_ok)
  with h show "read_sheet_with_metadata parse_cell_range val ws sheet_name start_cell0 end_cell0
            include_validation
          = Inr \<lparr> range_str = start_cell @ '':'', rd_sheet_name = sheet_name,
                  cell_records = [] \<rparr>"
    by (auto simp: read_sheet_with_metadata_def)
qed

theorem read_keeps_rows_with_values_witness:
  "read_sheet parse_cell_range_spec sample_sheet ''A1'' (Some ''B2'') = Inr [[VInt 5, VNone]]
   \<and> map record_key (cell_records (projr
          (read_sheet_with_metadata parse_cell_range_spec sample_validator sample_sheet ''Data''
             ''A1'' (Some ''B2'') True)))
       = [(1, 1, VInt 5), (1, 2, VNone), (2, 1, VNone), (2, 2, VNone)]
   \<and> read_sheet parse_cell_range_spec sample_sheet ''C3'' (Some ''D4'') = Inr []
   \<and> cell_records (projr
          (read_sheet_with_metadata parse_cell_range_spec sample_validator sample_sheet ''Data''
             ''C3'' (Some ''D4'') True)) = []"
proof -
  have k: "sheet_ok sample_sheet"
    by (simp add: sheet_ok_def sample_sheet_def)
  have s: "split_start ''A1'' (Some ''B2'') = Inr (''A1'', Some ''B2'')"
    "split_start ''C3'' (Some ''D4'') = Inr (''C3'', Some ''D4'')"
    by (simp_all add: split_start_def)
  have p: "resolve_range parse_cell_range_spec sample_sheet ''A1'' (Some ''B2'') = Inr (1, 1, 2, 2)"
    "resolve_range parse_cell_range_spec sample_sheet ''C3'' (Some ''D4'') = Inr (3, 3, 4, 4)"
    by code_simp+
  have m: "metadata_range parse_cell_range_spec sample_sheet ''A1'' (Some ''B2'') = Inr (1, 1, 2, 2)"
    "metadata_range parse_cell_range_spec sample_sheet ''C3'' (Some ''D4'') = Inr (3, 3, 4, 4)"
    by code_simp+
  have d: "max_row sample_sheet = 1" "max_column sample_sheet = 1"
    by (simp_all add: max_row_def max_column_def cell_rows_def cell_columns_def sample_sheet_def)
  have v: "\<forall>a. \<not> isl (sample_validator sample_sheet a)"
    by (simp add: sample_validator_def)
  have f: "filter has_value (rect_values sample_sheet 1 1 2 2) = [[VInt 5, VNone]]"
    "filter has_value (rect_values sample_sheet 3 3 4 4) = []"
    by code_simp+
  have c: "rect_cells sample_sheet 1 1 2 2
             = [(1, 1, VInt 5), (1, 2, VNone), (2, 1, VNone), (2, 2, VNone)]"
    by code_simp
  from k s p m d v f c
    read_keeps_rows_with_values [of sample_sheet "''A1''" "Some ''B2''" "''A1''" "Some ''B2''"
      parse_cell_range_spec 1 1 2 2 sample_validator "''Data''" True]
    read_keeps_rows_with_values [of sample_sheet "''C3''" "Some ''D4''" "''C3''" "Some ''D4''"
      parse_cell_range_spec 3 3 4 4 sample_validator "''Data''" True]
  show ?thesis by auto
qed

text \<open>
  On the sample sheet, whose only cell is A1, the rectangle C3:D4 has four cells, and
  the read with metadata returns none of them.
\<close>

theorem metadata_read_beyond_boundary:
  "metadata_range parse_cell_range_spec sample_sheet ''C3'' (Some ''D4'') = Inr (3, 3, 4, 4)
   \<and> rect_cells sample_sheet 3 3 4 4
       = [(3, 3, VNone), (3, 4, VNone), (4, 3, VNone), (4, 4, VNone)]
   \<and> read_excel_range_with_metadata parse_cell_range_spec sample_validator sample_files
         ''/book.xlsx'' ''Data'' ''C3'' (Some ''D4'') True
       = Inr \<lparr> range_str = ''C3:'', rd_sheet_name = ''Data'', cell_records = [] \<rparr>"
  by code_simp

end
